theory Spec2Isabelle
  imports Complex_Main "HOL-Library.AList"
begin

section \<open>Request validation (class RequestValidator)\<close>

text \<open>
  The handlers throw JavaScript errors; every throw site of the modelled code is one
  constructor. \<open>ValidationError\<close> carries the field name and the offending value
  that the source interpolates into the message. \<open>ErrorResponse\<close> is not thrown: it is
  the response that a handler returns from \<open>ApiResponseHandler.error\<close> with a message, a
  code and a status.
\<close>

datatype js_error =
    ValidationError string string
  | MarketError
  | TokenMissing
  | NoRosterData
  | HttpError nat
  | TushareApiError string int
  | NetworkError string
  | ApiFailure
  | ErrorResponse string string nat

text \<open>The character class \<open>\d\<close> of a JavaScript regular expression: the ten ASCII digits.\<close>

definition is_digit :: "char \<Rightarrow> bool" where
  "is_digit c = (c \<in> set ''0123456789'')"

text \<open>\<open>/^\d{8}$/.test(date)\<close>: the whole input is eight digits.\<close>

definition matches_date :: "string \<Rightarrow> bool" where
  "matches_date s = (length s = 8 \<and> list_all is_digit s)"

text \<open>\<open>/^\d{6}\.(SH|SZ)$/.test(code)\<close>: six digits, a dot, then SH or SZ.\<close>

definition matches_stock_code :: "string \<Rightarrow> bool" where
  "matches_stock_code s =
     (length s = 9 \<and> list_all is_digit (take 6 s) \<and> (drop 6 s = ''.SH'' \<or> drop 6 s = ''.SZ''))"

text \<open>
  \<open>if (date && !regex.test(date)) throw new ValidationError(...)\<close>: a string is truthy
  exactly when it is not empty.
\<close>

definition dateFormat :: "string \<Rightarrow> string \<Rightarrow> js_error + unit" where
  "dateFormat date fieldName =
     (if date \<noteq> [] \<and> \<not> matches_date date then Inl (ValidationError fieldName date)
      else Inr ())"

definition stockCode :: "string \<Rightarrow> string \<Rightarrow> js_error + unit" where
  "stockCode code fieldName =
     (if code \<noteq> [] \<and> \<not> matches_stock_code code then Inl (ValidationError fieldName code)
      else Inr ())"

section \<open>Upstream responses (class TushareClient)\<close>

text \<open>
  A value of the upstream JSON (\<open>any\<close> in the source). \<open>JUndefined\<close> is what reading
  an array past its end or a missing property yields.
\<close>

datatype js_value = JUndefined | JNull | JBool bool | JNum rat | JStr string

text \<open>
  A row object, created as \<open>{}\<close>: its own properties, in the order of their creation.
  Assigning to an existing own property replaces the value in place, as \<open>AList.update\<close>
  does. \<open>map_of obj k\<close> is the own property named \<open>k\<close>, if the object has one; reading
  \<open>obj[k]\<close> gives the value of the own property when there is one.
\<close>

type_synonym row = "(string \<times> js_value) list"

text \<open>
  \<open>obj[field] = value\<close> on an object created as \<open>{}\<close>, given with the flag that tells
  whether it still inherits from \<open>Object.prototype\<close>. The name \<open>__proto__\<close> is an
  accessor of that prototype: assigning to it runs the setter, which creates no own
  property; the value \<open>null\<close> cuts the object off from the prototype, any other value of
  \<open>js_value\<close> leaves the object as it is. Every other assignment creates or replaces an
  own property.
\<close>

definition assign_prop :: "string \<Rightarrow> js_value \<Rightarrow> row \<times> bool \<Rightarrow> row \<times> bool" where
  "assign_prop field v =
     (\<lambda>(obj, inherits).
        if field = ''__proto__'' \<and> inherits then (obj, v \<noteq> JNull)
        else (AList.update field v obj, inherits))"

text \<open>\<open>obj[k]\<close> for a name \<open>k\<close> that \<open>Object.prototype\<close> does not have: the own property,
  or \<open>undefined\<close>.\<close>

definition get_prop :: "row \<Rightarrow> string \<Rightarrow> js_value" where
  "get_prop obj k = (case map_of obj k of None \<Rightarrow> JUndefined | Some v \<Rightarrow> v)"

text \<open>The \<open>data\<close> block of a response; \<open>data_fields\<close> and \<open>data_items\<close> are its
  properties \<open>fields\<close> and \<open>items\<close>, either of which may be missing.\<close>

record tushare_data =
  data_fields :: "string list option"
  data_items :: "js_value list list option"
  has_more :: bool

record TushareResponse =
  request_id :: string
  code :: int
  msg :: string
  data :: "tushare_data option"

text \<open>\<open>item[index]\<close>: reading past the end of a JavaScript array gives \<open>undefined\<close>.\<close>

definition item_at :: "js_value list \<Rightarrow> nat \<Rightarrow> js_value" where
  "item_at item i = (if i < length item then item ! i else JUndefined)"

text \<open>
  The body of \<open>items.map\<close>: \<open>fields.forEach((field, index) => obj[field] = item[index])\<close>,
  starting from the empty object.
\<close>

definition zip_row :: "string list \<Rightarrow> js_value list \<Rightarrow> row" where
  "zip_row fs item =
     fst (fold (\<lambda>(field, index) obj. assign_prop field (item_at item index) obj)
               (zip fs [0..<length fs]) ([], True))"

definition transformResponse :: "TushareResponse \<Rightarrow> row list" where
  "transformResponse response =
     (case data response of
        None \<Rightarrow> []
      | Some d \<Rightarrow>
          (case data_fields d of
             None \<Rightarrow> []
           | Some fs \<Rightarrow>
               (case data_items d of
                  None \<Rightarrow> []
                | Some its \<Rightarrow> map (zip_row fs) its)))"

text \<open>Sample responses: one without a data block, one with two rows, one repeating a
  field name, one with the field name \<open>__proto__\<close>.\<close>

definition resp_no_data :: TushareResponse where
  "resp_no_data = \<lparr>request_id = ''r0'', code = 0, msg = '''', data = None\<rparr>"

definition resp_two_rows :: TushareResponse where
  "resp_two_rows = \<lparr>request_id = ''r1'', code = 0, msg = '''',
     data = Some \<lparr>data_fields = Some [''ts_code'', ''name''],
                   data_items = Some [[JStr ''600000.SH'', JStr ''A''], [JStr ''000001.SZ'']],
                   has_more = False\<rparr>\<rparr>"

definition resp_repeated_field :: TushareResponse where
  "resp_repeated_field = \<lparr>request_id = ''r2'', code = 0, msg = '''',
     data = Some \<lparr>data_fields = Some [''a'', ''a''], data_items = Some [[JNum 1, JNum 2]],
                   has_more = False\<rparr>\<rparr>"

definition resp_proto_field :: TushareResponse where
  "resp_proto_field = \<lparr>request_id = ''r3'', code = 0, msg = '''',
     data = Some \<lparr>data_fields = Some [''__proto__'', ''x''],
                   data_items = Some [[JStr ''p'', JStr ''q'']], has_more = False\<rparr>\<rparr>"

section \<open>Trading calendar (hook useTradeCalendar)\<close>

record TradeCalendarItem =
  item_exchange :: string
  cal_date :: string
  is_open :: int
  pretrade_date :: string

subsection \<open>The JavaScript Date of a local calendar day\<close>

text \<open>
  A \<open>Date\<close> built by \<open>new Date(year, monthIndex, day)\<close>, as the local-time getters
  \<open>getFullYear\<close>, \<open>getMonth\<close> (0 to 11) and \<open>getDate\<close> read it back. Years are
  non-negative integers below 275760, the year in which the range of \<open>Date\<close> ends (a
  \<open>Date\<close> past that end is invalid and its getters give \<open>NaN\<close>).
\<close>

record js_date =
  getFullYear :: nat
  getMonth :: nat
  getDate :: nat

definition is_leap :: "nat \<Rightarrow> bool" where
  "is_leap y = ((y mod 4 = 0 \<and> y mod 100 \<noteq> 0) \<or> y mod 400 = 0)"

text \<open>Days of the month with index \<open>m\<close> (0 is January) in year \<open>y\<close>.\<close>

definition month_length :: "nat \<Rightarrow> nat \<Rightarrow> nat" where
  "month_length y m =
     (if m = 1 then (if is_leap y then 29 else 28)
      else if m = 3 \<or> m = 5 \<or> m = 8 \<or> m = 10 then 30 else 31)"

text \<open>A day past the end of its month carries into the following months.\<close>

function carry_days :: "nat \<Rightarrow> nat \<Rightarrow> nat \<Rightarrow> js_date" where
  "carry_days y m d =
     (if d \<le> month_length y m then \<lparr>getFullYear = y, getMonth = m, getDate = d\<rparr>
      else if m = 11 then carry_days (y + 1) 0 (d - month_length y m)
      else carry_days y (m + 1) (d - month_length y m))"
  by pat_completeness auto
termination
  by (relation "measure (\<lambda>(y, m, d). d)") (auto simp: month_length_def)

declare carry_days.simps [simp del]

text \<open>
  The calendar day that \<open>new Date(year, monthIndex, day)\<close> asks for: a year from 0 to 99
  means 1900 + year; the month index is reduced modulo 12 with the year adjusted (so index
  12 is January of the next year and -1 is December of the previous one); day 0 is the
  last day of the previous month.
\<close>

definition civil_day :: "nat \<Rightarrow> int \<Rightarrow> nat \<Rightarrow> js_date" where
  "civil_day year monthIndex day =
     (let y0 = (if year < 100 then 1900 + year else year);
          y = nat (int y0 + monthIndex div 12);
          m = nat (monthIndex mod 12)
      in if day = 0
         then (if m = 0 then \<lparr>getFullYear = y - 1, getMonth = 11, getDate = 31\<rparr>
               else \<lparr>getFullYear = y, getMonth = m - 1, getDate = month_length y (m - 1)\<rparr>)
         else carry_days y m day)"

text \<open>
  \<open>new Date(year, monthIndex, day)\<close> is the instant of local midnight of that day, and
  the getters read the instant back in local time. Both depend on the time zone of the
  host, here the parameter \<open>zone\<close>: it maps the calendar day asked for to the day that
  the getters give. In a zone where every calendar day has its midnight this is the day
  asked for; where a change of the zone's offset skipped a day (Pacific/Apia has no
  30 December 2011) the getters give the day after it.
\<close>

definition Date_new :: "(js_date \<Rightarrow> js_date) \<Rightarrow> nat \<Rightarrow> int \<Rightarrow> nat \<Rightarrow> js_date" where
  "Date_new zone year monthIndex day = zone (civil_day year monthIndex day)"

text \<open>The zone has every day of the month with index \<open>m\<close> of the year \<open>y\<close>: each of
  them is read back as it was asked for.\<close>

definition has_every_day :: "(js_date \<Rightarrow> js_date) \<Rightarrow> nat \<Rightarrow> nat \<Rightarrow> bool" where
  "has_every_day zone y m =
     list_all (\<lambda>d. zone \<lparr>getFullYear = y, getMonth = m, getDate = d\<rparr>
                     = \<lparr>getFullYear = y, getMonth = m, getDate = d\<rparr>)
              [1..<Suc (month_length y m)]"

text \<open>A zone that skips no day, and the zone of Apia around the end of 2011.\<close>

definition no_skip :: "js_date \<Rightarrow> js_date" where
  "no_skip d = d"

definition apia :: "js_date \<Rightarrow> js_date" where
  "apia d =
     (if d = \<lparr>getFullYear = 2011, getMonth = 11, getDate = 30\<rparr>
      then \<lparr>getFullYear = 2011, getMonth = 11, getDate = 31\<rparr> else d)"

text \<open>
  \<open>getDay\<close>, as ECMAScript defines the week day of the local day that the getters give:
  the day number counted from 1 January 1970 (a Thursday, day 4 of the week), plus 4,
  modulo 7. 0 is Sunday.
\<close>

definition DayFromYear :: "int \<Rightarrow> int" where
  "DayFromYear y =
     365 * (y - 1970) + (y - 1969) div 4 - (y - 1901) div 100 + (y - 1601) div 400"

definition days_before_month :: "nat \<Rightarrow> nat \<Rightarrow> nat" where
  "days_before_month y m = sum_list (map (month_length y) [0..<m])"

definition day_number :: "js_date \<Rightarrow> int" where
  "day_number d =
     DayFromYear (int (getFullYear d)) + int (days_before_month (getFullYear d) (getMonth d))
       + int (getDate d) - 1"

definition getDay :: "js_date \<Rightarrow> nat" where
  "getDay d = nat ((day_number d + 4) mod 7)"

subsection \<open>Formatting\<close>

text \<open>\<open>String(n)\<close> for a non-negative integer: its decimal digits.\<close>

fun String_of :: "nat \<Rightarrow> string" where
  "String_of n =
     (if n < 10 then [''0123456789'' ! n]
      else String_of (n div 10) @ [''0123456789'' ! (n mod 10)])"

declare String_of.simps [simp del]

text \<open>\<open>s.padStart(2, '0')\<close>.\<close>

definition padStart2 :: "string \<Rightarrow> string" where
  "padStart2 s = replicate (2 - length s) (CHR ''0'') @ s"

definition formatDateToString :: "js_date \<Rightarrow> string" where
  "formatDateToString date =
     String_of (getFullYear date) @ padStart2 (String_of (getMonth date + 1))
       @ padStart2 (String_of (getDate date))"

definition getMonthKey :: "nat \<Rightarrow> nat \<Rightarrow> string \<Rightarrow> string" where
  "getMonthKey year month exchange =
     String_of year @ ''-'' @ padStart2 (String_of month) @ ''-'' @ exchange"

subsection \<open>transformToCalendarDates\<close>

record CalendarDate =
  date :: js_date
  dateString :: string
  isTrading :: bool
  isWeekend :: bool
  isHoliday :: bool
  exchange :: string
  tradeDate :: string

text \<open>\<open>apiData.forEach(item => tradeMap.set(item.cal_date, item))\<close>: a later item replaces
  an earlier one with the same date.\<close>

definition tradeMap :: "TradeCalendarItem list \<Rightarrow> (string \<rightharpoonup> TradeCalendarItem)" where
  "tradeMap apiData = fold (\<lambda>item m. m(cal_date item \<mapsto> item)) apiData Map.empty"

text \<open>
  The body of the loop over the days. \<open>exch\<close> is the hook's current exchange, which the
  closure reads; \<open>toISODate\<close> stands for \<open>date.toISOString().split('T')[0]\<close>, the UTC date of
  the local midnight, which depends on the time zone of the host.
\<close>

definition calendarDate ::
  "string \<Rightarrow> (js_date \<Rightarrow> string) \<Rightarrow> (string \<rightharpoonup> TradeCalendarItem) \<Rightarrow> js_date \<Rightarrow> CalendarDate" where
  "calendarDate exch toISODate tm d =
     (let dateStr = formatDateToString d;
          tradeInfo = tm dateStr;
          dayOfWeek = getDay d;
          weekend = (dayOfWeek = 0 \<or> dayOfWeek = 6)
      in \<lparr>date = d,
          dateString = toISODate d,
          isTrading = (case tradeInfo of None \<Rightarrow> False | Some t \<Rightarrow> is_open t = 1),
          isWeekend = weekend,
          isHoliday = (case tradeInfo of None \<Rightarrow> False | Some t \<Rightarrow> is_open t = 0 \<and> \<not> weekend),
          exchange = exch,
          tradeDate = dateStr\<rparr>)"

definition transformToCalendarDates ::
  "(js_date \<Rightarrow> js_date) \<Rightarrow> string \<Rightarrow> (js_date \<Rightarrow> string) \<Rightarrow> TradeCalendarItem list
     \<Rightarrow> nat \<Rightarrow> nat \<Rightarrow> CalendarDate list" where
  "transformToCalendarDates zone exch toISODate apiData year month =
     (let daysInMonth = getDate (Date_new zone year (int month) 0);
          tm = tradeMap apiData
      in map (\<lambda>day. calendarDate exch toISODate tm (Date_new zone year (int month - 1) day))
             [1..<Suc daysInMonth])"

text \<open>Sample markers for February 2024: the 1st open, the 2nd and 3rd closed; and one
  marker that declares Saturday the 3rd open.\<close>

definition feb_markers :: "TradeCalendarItem list" where
  "feb_markers =
     [\<lparr>item_exchange = ''SSE'', cal_date = ''20240201'', is_open = 1, pretrade_date = ''20240131''\<rparr>,
      \<lparr>item_exchange = ''SSE'', cal_date = ''20240202'', is_open = 0, pretrade_date = ''20240201''\<rparr>,
      \<lparr>item_exchange = ''SSE'', cal_date = ''20240203'', is_open = 0, pretrade_date = ''20240201''\<rparr>]"

definition feb_calendar :: "CalendarDate list" where
  "feb_calendar = transformToCalendarDates no_skip ''SSE'' (\<lambda>d. []) feb_markers 2024 2"

definition saturday_open :: "TradeCalendarItem list" where
  "saturday_open =
     [\<lparr>item_exchange = ''SSE'', cal_date = ''20240203'', is_open = 1, pretrade_date = ''20240202''\<rparr>]"

definition saturday_calendar :: "CalendarDate list" where
  "saturday_calendar = transformToCalendarDates no_skip ''SSE'' (\<lambda>d. []) saturday_open 2024 2"

text \<open>December 2011 as a host in the zone of Apia generates it, without markers.\<close>

definition apia_calendar :: "CalendarDate list" where
  "apia_calendar = transformToCalendarDates apia ''SSE'' (\<lambda>d. []) [] 2011 12"

subsection \<open>fetchMonthCalendar and the month cache\<close>

record MonthCalendarData =
  mc_year :: nat
  mc_month :: nat
  dates :: "CalendarDate list"
  tradingDays :: nat
  lastUpdate :: string

text \<open>
  The state of the hook: the month cache \<open>calendarData\<close> (a \<open>Map\<close> from month key to
  entry), the \<open>loading\<close> flag, the stored \<open>error\<close> (the error whose message the source
  keeps) and the current exchange.
\<close>

record hook_state =
  calendarData :: "string \<rightharpoonup> MonthCalendarData"
  loading :: bool
  error :: "js_error option"
  hook_exchange :: string

text \<open>
  \<open>fetchMonthCalendar\<close> is built by \<open>useCallback\<close> with the dependencies \<open>exchange\<close> and
  \<open>calendarData\<close>: the callback of a render reads the \<open>calendarData\<close> and the \<open>exchange\<close>
  of that render, whatever the state has become since, and a later render gives a new
  callback. The setters act on the state of the hook as it is when they run.
\<close>

record callback =
  seen_calendarData :: "string \<rightharpoonup> MonthCalendarData"
  seen_exchange :: string

definition render :: "hook_state \<Rightarrow> callback" where
  "render st = \<lparr>seen_calendarData = calendarData st, seen_exchange = hook_exchange st\<rparr>"

text \<open>
  What \<open>fetch(url)\<close> followed by \<open>response.json()\<close> can give: a rejection (no connection,
  or a body that is not JSON), a response whose status is not ok, or a parsed body with
  its \<open>success\<close> flag and its \<open>data\<close>.
\<close>

datatype fetch_outcome =
    Rejected string
  | NotOk nat
  | Body bool "TradeCalendarItem list"

text \<open>The effects a call has outside the state: a request to the source, and a run of
  the generator \<open>transformToCalendarDates\<close> with the days it returned.\<close>

datatype effect = Fetched string | Generated "CalendarDate list"

definition calendar_url :: "string \<Rightarrow> string \<Rightarrow> string \<Rightarrow> string" where
  "calendar_url targetExchange start_date end_date =
     ''/api/tushare/trade-calendar?exchange='' @ targetExchange
       @ ''&start_date='' @ start_date @ ''&end_date='' @ end_date"

text \<open>
  \<open>fetchMonthCalendar\<close>, called through the callback \<open>cb\<close> while the state of the hook
  is \<open>st\<close>. \<open>fetch\<close> is the network, \<open>zone\<close> the time zone of the host, \<open>now\<close> the clock
  reading \<open>new Date().toISOString()\<close>. The cache is looked up in the \<open>calendarData\<close> of
  the callback; \<open>setCalendarData(prev => new Map(prev).set(monthKey, monthData))\<close> adds
  the entry to the \<open>calendarData\<close> of the state. The result is the returned entry or the
  thrown error, the state after the call, and the effects in order.
\<close>

definition fetchMonthCalendar ::
  "(string \<Rightarrow> fetch_outcome) \<Rightarrow> (js_date \<Rightarrow> js_date) \<Rightarrow> (js_date \<Rightarrow> string) \<Rightarrow> string
     \<Rightarrow> callback \<Rightarrow> hook_state \<Rightarrow> nat \<Rightarrow> nat \<Rightarrow> string \<Rightarrow> bool
     \<Rightarrow> (js_error + MonthCalendarData) \<times> hook_state \<times> effect list" where
  "fetchMonthCalendar fetch zone toISODate now cb st year month targetExchange forceRefresh =
     (let monthKey = getMonthKey year month targetExchange in
      case (if forceRefresh then None else seen_calendarData cb monthKey) of
        Some entry \<Rightarrow> (Inr entry, st, [])
      | None \<Rightarrow>
          (let start_date = formatDateToString (Date_new zone year (int month - 1) 1);
               end_date = formatDateToString (Date_new zone year (int month) 0);
               url = calendar_url targetExchange start_date end_date;
               failed = (\<lambda>e. (Inl e, st\<lparr>loading := False, error := Some e\<rparr>, [Fetched url]))
           in case fetch url of
                Rejected m \<Rightarrow> failed (NetworkError m)
              | NotOk status \<Rightarrow> failed (HttpError status)
              | Body success apiData \<Rightarrow>
                  if \<not> success then failed ApiFailure
                  else
                    (let ds = transformToCalendarDates zone (seen_exchange cb) toISODate apiData
                                year month;
                         monthData = \<lparr>mc_year = year, mc_month = month, dates = ds,
                                      tradingDays = length (filter isTrading ds),
                                      lastUpdate = now\<rparr>
                     in (Inr monthData,
                         st\<lparr>calendarData := (calendarData st)(monthKey \<mapsto> monthData),
                            loading := False, error := None\<rparr>,
                         [Fetched url, Generated ds]))))"

text \<open>\<open>clearCache\<close>: \<open>setCalendarData(new Map())\<close>.\<close>

definition clearCache :: "hook_state \<Rightarrow> hook_state" where
  "clearCache st = st\<lparr>calendarData := Map.empty\<rparr>"

definition generations :: "effect list \<Rightarrow> nat" where
  "generations es = length (filter (\<lambda>e. case e of Generated ds \<Rightarrow> True | Fetched u \<Rightarrow> False) es)"

definition fetches :: "effect list \<Rightarrow> nat" where
  "fetches es = length (filter (\<lambda>e. case e of Fetched u \<Rightarrow> True | Generated ds \<Rightarrow> False) es)"

text \<open>A fresh hook, and a source that answers every request with the February markers.\<close>

definition initial_state :: hook_state where
  "initial_state = \<lparr>calendarData = Map.empty, loading = False, error = None, hook_exchange = ''SSE''\<rparr>"

definition feb_source :: "string \<Rightarrow> fetch_outcome" where
  "feb_source url = Body True feb_markers"

definition down_source :: "string \<Rightarrow> fetch_outcome" where
  "down_source url = Rejected ''Failed to fetch''"

text \<open>
  Calls on a fresh hook, for February 2024 at the exchange SSE. The first call goes
  through the callback of the first render. \<open>same_callback_call\<close> is a second call through
  that same callback, made once the first has updated the state. \<open>second_call\<close> and
  \<open>forced_call\<close> go through the callback of the render that follows the update, the one
  while the source is down, the other forced.
\<close>

definition first_call :: "(js_error + MonthCalendarData) \<times> hook_state \<times> effect list" where
  "first_call =
     fetchMonthCalendar feb_source no_skip (\<lambda>d. []) ''t1'' (render initial_state) initial_state
       2024 2 ''SSE'' False"

definition same_callback_call :: "(js_error + MonthCalendarData) \<times> hook_state \<times> effect list" where
  "same_callback_call =
     fetchMonthCalendar feb_source no_skip (\<lambda>d. []) ''t2'' (render initial_state)
       (fst (snd first_call)) 2024 2 ''SSE'' False"

definition second_call :: "(js_error + MonthCalendarData) \<times> hook_state \<times> effect list" where
  "second_call =
     fetchMonthCalendar down_source no_skip (\<lambda>d. []) ''t2'' (render (fst (snd first_call)))
       (fst (snd first_call)) 2024 2 ''SSE'' False"

definition forced_call :: "(js_error + MonthCalendarData) \<times> hook_state \<times> effect list" where
  "forced_call =
     fetchMonthCalendar feb_source no_skip (\<lambda>d. []) ''t3'' (render (fst (snd first_call)))
       (fst (snd first_call)) 2024 2 ''SSE'' True"

section \<open>Batch aggregation (handler batch-fetch)\<close>

subsection \<open>Stock records and their statistics\<close>

text \<open>
  The \<open>Stock\<close> interface, with the properties that the handler reads and the main
  properties of each overlay. The properties that the source names in Chinese appear
  under ASCII names: \<open>industry_zh\<close> (the industry a stock belongs to), \<open>prev_close_zh\<close>
  (previous close), \<open>pe_ttm_zh\<close> (trailing price/earnings ratio), \<open>pb_zh\<close> (price/book
  ratio), \<open>total_mv_zh\<close> (total market value). \<open>industry\<close> is the property of that name
  which the index signature admits. A number that is absent or \<open>null\<close> is \<open>None\<close>.
\<close>

record Stock =
  stock_id :: string
  symbol :: string
  stock_name :: string
  market :: string
  addedAt :: string
  currentPrice :: "rat option"
  change :: "rat option"
  changePercent :: "rat option"
  stock_tradeDate :: "string option"
  industry_zh :: "string option"
  industry :: "string option"
  prev_close_zh :: "rat option"
  pe_ttm_zh :: "rat option"
  pb_zh :: "rat option"
  total_mv_zh :: "rat option"

text \<open>A number that \<open>Math.round\<close> returns: an integer, or what a division by zero leaves.\<close>

datatype js_rounded = Finite int | PosInfinity | NaN

text \<open>
  \<open>Math.round((a / n) * 100)\<close> for counts \<open>a\<close> and \<open>n\<close>. \<open>0 / 0\<close> is \<open>NaN\<close> and
  \<open>a / 0\<close> is \<open>Infinity\<close> for a positive \<open>a\<close>. Otherwise the result is the integer
  nearest to \<open>100 * a / n\<close>. When that quotient lies exactly halfway between two
  integers, the double computed for it may fall on either side of the half (29 / 200 * 100
  is 14.499999999999998), so which neighbour \<open>Math.round\<close> returns is left to the
  parameter \<open>tie_up\<close>, which stands for the floating-point arithmetic of the host.
\<close>

definition round_percent :: "(nat \<Rightarrow> nat \<Rightarrow> bool) \<Rightarrow> nat \<Rightarrow> nat \<Rightarrow> js_rounded" where
  "round_percent tie_up a n =
     (if n = 0 then (if a = 0 then NaN else PosInfinity)
      else
        (let q = (100 * a) div n; r = (100 * a) mod n
         in if 2 * r < n then Finite (int q)
            else if n < 2 * r then Finite (int q + 1)
            else if tie_up a n then Finite (int q + 1) else Finite (int q)))"

text \<open>The label \<open>'unknown'\<close> of the source, two Chinese characters, as its UTF-8 bytes.\<close>

definition unknown_industry :: string where
  "unknown_industry = [CHR 0xE6, CHR 0x9C, CHR 0xAA, CHR 0xE7, CHR 0x9F, CHR 0xA5]"

text \<open>A string that may be absent is truthy when it is present and not empty.\<close>

definition truthy :: "string option \<Rightarrow> bool" where
  "truthy s = (case s of None \<Rightarrow> False | Some v \<Rightarrow> v \<noteq> [])"

text \<open>\<open>stock.industry_zh || stock.industry || 'unknown'\<close>: the first truthy one.\<close>

definition industry_label :: "Stock \<Rightarrow> string" where
  "industry_label stock =
     (if truthy (industry_zh stock) then the (industry_zh stock)
      else if truthy (industry stock) then the (industry stock)
      else unknown_industry)"

text \<open>
  \<open>industryCount[industry] = (industryCount[industry] || 0) + 1\<close> on an object that
  keeps its properties in creation order, for a label that \<open>Object.prototype\<close> does not
  have: the first read gives \<open>undefined\<close>, a later one the count so far.
\<close>

definition count_industry :: "string \<Rightarrow> (string \<times> nat) list \<Rightarrow> (string \<times> nat) list" where
  "count_industry k counts =
     AList.update k ((case map_of counts k of None \<Rightarrow> 0 | Some c \<Rightarrow> c) + 1) counts"

text \<open>
  \<open>Object.entries\<close>: the properties whose names are array indices (canonical decimal
  numerals below \<open>2^32 - 1\<close>) come first, in ascending numeric order; the others follow in
  creation order.
\<close>

definition nat_of_digits :: "string \<Rightarrow> nat" where
  "nat_of_digits s = foldl (\<lambda>acc c. 10 * acc + (of_char c - 48)) 0 s"

definition is_array_index :: "string \<Rightarrow> bool" where
  "is_array_index k =
     (k \<noteq> [] \<and> list_all is_digit k \<and> (k = ''0'' \<or> hd k \<noteq> CHR ''0'')
      \<and> nat_of_digits k < 4294967295)"

definition Object_entries :: "(string \<times> 'v) list \<Rightarrow> (string \<times> 'v) list" where
  "Object_entries obj =
     sort_key (\<lambda>(k, v). nat_of_digits k) (filter (\<lambda>(k, v). is_array_index k) obj)
       @ filter (\<lambda>(k, v). \<not> is_array_index k) obj"

record industry_share =
  share_industry :: string
  share_count :: nat
  share_percentage :: js_rounded

text \<open>
  The names that \<open>industryCount\<close>, created as \<open>{}\<close>, inherits from \<open>Object.prototype\<close>.
  For a label among them the first read \<open>industryCount[industry]\<close> gives a function or
  an object, the sum with 1 is a string, and the comparator \<open>b - a\<close> on such a count is
  \<open>NaN\<close>, which leaves the order of the sort to the implementation.
\<close>

definition Object_prototype_names :: "string list" where
  "Object_prototype_names =
     [''constructor'', ''__defineGetter__'', ''__defineSetter__'', ''hasOwnProperty'',
      ''__lookupGetter__'', ''__lookupSetter__'', ''isPrototypeOf'', ''propertyIsEnumerable'',
      ''toString'', ''valueOf'', ''__proto__'', ''toLocaleString'']"

text \<open>
  \<open>getTopIndustries\<close>. \<open>sort\<close> with the comparator \<open>b - a\<close> on the counts is a stable
  sort by descending count. The result is \<open>None\<close> when some label is a name of
  \<open>Object.prototype\<close>: what the code returns then is not modelled.
\<close>

definition getTopIndustries ::
  "(nat \<Rightarrow> nat \<Rightarrow> bool) \<Rightarrow> Stock list \<Rightarrow> nat \<Rightarrow> industry_share list option" where
  "getTopIndustries tie_up stocks topN =
     (if list_ex (\<lambda>stock. industry_label stock \<in> set Object_prototype_names) stocks then None
      else
        (let industryCount =
               fold (\<lambda>stock counts. count_industry (industry_label stock) counts) stocks []
         in Some (map (\<lambda>(ind, cnt). \<lparr>share_industry = ind, share_count = cnt,
                                       share_percentage = round_percent tie_up cnt (length stocks)\<rparr>)
                    (take topN (sort_key (\<lambda>(ind, cnt). - int cnt)
                                  (Object_entries industryCount))))))"

record batch_metadata =
  total_basic :: nat
  processed :: nat
  has_market_data :: bool
  has_basic_indicators :: bool
  market_data_count :: nat
  basic_indicators_count :: nat
  meta_trade_date :: string

record stats_summary =
  total_stocks :: nat
  total_basic_available :: nat
  processed_count :: nat
  with_market_data :: nat
  with_basic_indicators :: nat
  summary_trade_date :: string

record stats_markets =
  markets_SH :: nat
  markets_SZ :: nat

record stats_data_quality =
  basic_info_complete :: nat
  market_data_coverage :: js_rounded
  basic_indicators_coverage :: js_rounded

record stats_performance =
  data_sources :: "string list"
  api_calls_made :: nat
  total_records_processed :: nat

record batch_stats =
  summary :: stats_summary
  markets :: stats_markets
  industries :: "industry_share list option"
  data_quality :: stats_data_quality
  performance :: stats_performance

text \<open>\<open>x && x > 0\<close> on a number that may be absent.\<close>

definition positive :: "rat option \<Rightarrow> bool" where
  "positive x = (case x of None \<Rightarrow> False | Some v \<Rightarrow> v \<noteq> 0 \<and> 0 < v)"

definition generateBatchStats ::
  "(nat \<Rightarrow> nat \<Rightarrow> bool) \<Rightarrow> Stock list \<Rightarrow> batch_metadata \<Rightarrow> batch_stats" where
  "generateBatchStats tie_up stocks metadata =
     (let with_md = (if has_market_data metadata
                     then length (filter (\<lambda>s. positive (currentPrice s)) stocks) else 0);
          with_bi = (if has_basic_indicators metadata
                     then length (filter (\<lambda>s. positive (pe_ttm_zh s)) stocks) else 0)
      in \<lparr>summary = \<lparr>total_stocks = length stocks,
                      total_basic_available = total_basic metadata,
                      processed_count = processed metadata,
                      with_market_data = with_md,
                      with_basic_indicators = with_bi,
                      summary_trade_date = meta_trade_date metadata\<rparr>,
          markets = \<lparr>markets_SH = length (filter (\<lambda>s. market s = ''SH'') stocks),
                      markets_SZ = length (filter (\<lambda>s. market s = ''SZ'') stocks)\<rparr>,
          industries = getTopIndustries tie_up stocks 10,
          data_quality =
            \<lparr>basic_info_complete = length stocks,
             market_data_coverage =
               (if has_market_data metadata then round_percent tie_up with_md (length stocks)
                else Finite 0),
             basic_indicators_coverage =
               (if has_basic_indicators metadata then round_percent tie_up with_bi (length stocks)
                else Finite 0)\<rparr>,
          performance =
            \<lparr>data_sources =
               (if has_market_data metadata then [''daily_market_data''] else [])
               @ (if has_basic_indicators metadata then [''daily_basic_indicators''] else []),
             api_calls_made = 1 + (if has_market_data metadata then 1 else 0)
                                + (if has_basic_indicators metadata then 1 else 0),
             total_records_processed = length stocks\<rparr>\<rparr>)"

text \<open>Sample records: one with a quote and no indicators, one with all indicators present
  and a negative price/earnings ratio; and the metadata of a request that fetched both
  overlays.\<close>

definition quoted_stock :: Stock where
  "quoted_stock =
     \<lparr>stock_id = ''600000.SH'', symbol = ''600000'', stock_name = ''A'', market = ''SH'',
      addedAt = ''t0'', currentPrice = Some (21 / 2), change = Some (1 / 2),
      changePercent = Some 5, stock_tradeDate = Some ''20240101'', industry_zh = None,
      industry = Some ''Bank'', prev_close_zh = Some 10, pe_ttm_zh = None, pb_zh = None,
      total_mv_zh = None\<rparr>"



subsection \<open>Record keys and the merge (module data-transformer)\<close>

text \<open>
  Modelled from the spec: the module \<open>data-transformer\<close> (\<open>DataTransformer.createDataMap\<close>
  and \<open>DataTransformer.batchMergeStockData\<close>) is imported by the handler and is not among
  the sources. The rows below are the rows of section 4.1 with the instrument identifier
  (and, for an overlay, the trade date) singled out; a merged record holds the roster
  fields and, per overlay, either the full field set of the matched row or nothing
  (section 3).
\<close>

record roster_row =
  rr_code :: string
  rr_fields :: row

record overlay_row =
  ov_code :: string
  ov_tradeDate :: string
  ov_fields :: row

record InstrumentRecord =
  ir_code :: string
  ir_roster :: row
  ir_quote :: "row option"
  ir_indicators :: "row option"

text \<open>
  Modelled from the spec: \<open>RecordKeyer.key\<close> of section 4.2, the two components joined
  by a separator that occurs in neither (the underscore, as the market-data handler
  writes its keys).
\<close>

definition RecordKeyer_key :: "string \<Rightarrow> string \<Rightarrow> string" where
  "RecordKeyer_key instrumentId onDate = instrumentId @ ''_'' @ onDate"

text \<open>
  Modelled from the spec: the lookup map of one overlay (section 4.3), from key to row,
  built in one pass; a later row replaces an earlier one with the same key.
\<close>

definition overlay_lookup :: "overlay_row list \<Rightarrow> (string \<rightharpoonup> overlay_row)" where
  "overlay_lookup rows =
     fold (\<lambda>r m. m(RecordKeyer_key (ov_code r) (ov_tradeDate r) \<mapsto> r)) rows Map.empty"

text \<open>
  Modelled from the spec: the fields of one overlay for a key: absent when the overlay is
  absent or has no row for the key, the full field set of the row otherwise.
\<close>

definition overlay_fields :: "overlay_row list option \<Rightarrow> string \<Rightarrow> row option" where
  "overlay_fields overlay k =
     (case overlay of
        None \<Rightarrow> None
      | Some rows \<Rightarrow> map_option ov_fields (overlay_lookup rows k))"

text \<open>
  Modelled from the spec: \<open>RecordMerger.merge\<close> of section 4.3. One record per roster
  row, in roster order; the key of a roster row joins its code with the trade date of the
  aggregation request, for which the overlays were fetched.
\<close>

definition RecordMerger_merge ::
  "string \<Rightarrow> roster_row list \<Rightarrow> overlay_row list option \<Rightarrow> overlay_row list option
     \<Rightarrow> InstrumentRecord list" where
  "RecordMerger_merge onDate rosterRows quoteRows indicatorRows =
     map (\<lambda>r. \<lparr>ir_code = rr_code r,
                ir_roster = rr_fields r,
                ir_quote = overlay_fields quoteRows (RecordKeyer_key (rr_code r) onDate),
                ir_indicators = overlay_fields indicatorRows (RecordKeyer_key (rr_code r) onDate)\<rparr>)
         rosterRows"

text \<open>Modelled from the spec: the overlay rows whose key is the key of some roster row.\<close>

definition matching_rows :: "string \<Rightarrow> roster_row list \<Rightarrow> overlay_row list \<Rightarrow> overlay_row list" where
  "matching_rows onDate rosterRows rows =
     filter (\<lambda>ov. RecordKeyer_key (ov_code ov) (ov_tradeDate ov)
                   \<in> set (map (\<lambda>r. RecordKeyer_key (rr_code r) onDate) rosterRows)) rows"

subsection \<open>The client\<close>

text \<open>An object whose property values are strings, in creation order (the parameter
  objects of the client).\<close>

type_synonym js_params = "(string \<times> string) list"

record TushareRequestParams =
  api_name :: string
  token :: string
  params :: js_params
  req_fields :: string

text \<open>
  What the \<open>POST\<close> of a request can give: no usable response (the connection fails or
  the body is not JSON), a status that is not ok, or a parsed body. The delay before each
  request is a matter of time only and does not appear.
\<close>

datatype upstream_outcome = Unreachable string | Status nat | Reply TushareResponse

text \<open>\<open>x || d\<close> for a string that may be absent.\<close>

definition or_default :: "string option \<Rightarrow> string \<Rightarrow> string" where
  "or_default x d = (case x of None \<Rightarrow> d | Some v \<Rightarrow> if v = [] then d else v)"

text \<open>\<open>{...base, ...extra}\<close>: the properties of \<open>extra\<close> in order, each replacing in
  place or appended.\<close>

definition spread :: "js_params \<Rightarrow> js_params \<Rightarrow> js_params" where
  "spread base extra = fold (\<lambda>(k, v) obj. AList.update k v obj) extra base"

text \<open>The constructor: \<open>process.env.TUSHARE_TOKEN || ''\<close>, refused when empty.\<close>

definition new_TushareClient :: "string option \<Rightarrow> js_error + string" where
  "new_TushareClient env_token =
     (let tok = or_default env_token [] in if tok = [] then Inl TokenMissing else Inr tok)"

definition call :: "(TushareRequestParams \<Rightarrow> upstream_outcome) \<Rightarrow> TushareRequestParams
    \<Rightarrow> js_error + TushareResponse" where
  "call upstream requestParams =
     (case upstream requestParams of
        Unreachable m \<Rightarrow> Inl (NetworkError m)
      | Status s \<Rightarrow> Inl (HttpError s)
      | Reply d \<Rightarrow> if code d \<noteq> 0 then Inl (TushareApiError (msg d) (code d)) else Inr d)"

text \<open>The requests that \<open>getStockBasic\<close>, \<open>getDailyData\<close> and \<open>getDailyBasic\<close> send.\<close>

definition stock_basic_request :: "string \<Rightarrow> js_params \<Rightarrow> TushareRequestParams" where
  "stock_basic_request tok p =
     \<lparr>api_name = ''stock_basic'', token = tok,
      params = spread [(''exchange'', or_default (map_of p ''exchange'') []),
                       (''list_status'', or_default (map_of p ''list_status'') ''L'')] p,
      req_fields = or_default (map_of p ''fields'')
                     ''ts_code,symbol,name,area,industry,market,list_date''\<rparr>"

definition daily_request :: "string \<Rightarrow> js_params \<Rightarrow> TushareRequestParams" where
  "daily_request tok p =
     \<lparr>api_name = ''daily'', token = tok, params = spread [] p,
      req_fields = or_default (map_of p ''fields'')
                     ''ts_code,trade_date,open,high,low,close,pre_close,change,pct_chg,vol,amount''\<rparr>"

definition daily_basic_request :: "string \<Rightarrow> js_params \<Rightarrow> TushareRequestParams" where
  "daily_basic_request tok p =
     \<lparr>api_name = ''daily_basic'', token = tok, params = spread [] p,
      req_fields = or_default (map_of p ''fields'')
        ''ts_code,trade_date,close,turnover_rate,pe,pb,ps,dv_ratio,total_share,float_share,free_share,total_mv,circ_mv''\<rparr>"

text \<open>A client method: send the request, then \<open>transformResponse\<close>; an error of \<open>call\<close>
  is thrown on.\<close>

definition fetch_rows :: "(TushareRequestParams \<Rightarrow> upstream_outcome) \<Rightarrow> TushareRequestParams
    \<Rightarrow> js_error + row list" where
  "fetch_rows upstream req =
     (case call upstream req of Inl e \<Rightarrow> Inl e | Inr response \<Rightarrow> Inr (transformResponse response))"

subsection \<open>parseInt\<close>

text \<open>
  \<open>parseInt(s)\<close> without a radix: leading white space is skipped, a sign is read, the
  prefix \<open>0x\<close> or \<open>0X\<close> selects radix 16, and the longest run of digits of the radix is
  the value; with no digit the result is \<open>NaN\<close>. The number returned is a double: it is
  the integer read when that is at most \<open>2^53\<close> in absolute value, and a double near it
  otherwise, of which only the sign is kept here (\<open>ParsedBeyond True\<close> is below
  \<open>-2^53\<close>). Strings are sequences of code units below 256.
\<close>

datatype js_parsed = ParsedNaN | Parsed int | ParsedBeyond bool

definition is_js_space :: "char \<Rightarrow> bool" where
  "is_js_space c = (c \<in> set [CHR 0x09, CHR 0x0A, CHR 0x0B, CHR 0x0C, CHR 0x0D, CHR 0x20, CHR 0xA0])"

definition radix_digit :: "nat \<Rightarrow> char \<Rightarrow> nat option" where
  "radix_digit radix c =
     (case map_of (zip ''0123456789abcdefABCDEF''
                       [0, 1, 2, 3, 4, 5, 6, 7, 8, 9, 10, 11, 12, 13, 14, 15, 10, 11, 12, 13, 14, 15]) c of
        None \<Rightarrow> None
      | Some v \<Rightarrow> if v < radix then Some v else None)"

definition parseInt :: "string \<Rightarrow> js_parsed" where
  "parseInt s =
     (let s1 = dropWhile is_js_space s;
          negative = (take 1 s1 = ''-'');
          s2 = (if take 1 s1 = ''+'' \<or> take 1 s1 = ''-'' then drop 1 s1 else s1);
          hex = (take 2 s2 = ''0x'' \<or> take 2 s2 = ''0X'');
          radix = (if hex then 16 else 10);
          s3 = (if hex then drop 2 s2 else s2);
          z = takeWhile (\<lambda>c. radix_digit radix c \<noteq> None) s3;
          v = foldl (\<lambda>acc c. radix * acc + the (radix_digit radix c)) 0 z
      in if z = [] then ParsedNaN
         else if 9007199254740992 < v then ParsedBeyond negative
         else Parsed ((if negative then - 1 else 1) * int v))"

subsection \<open>The handler GET\<close>

text \<open>A \<open>Map<string, any>\<close> from key to row, in insertion order; its keys are distinct,
  so its size is the length of the list.\<close>

type_synonym data_map = "(string \<times> row) list"

text \<open>
  What the handler imports from modules that are not among the sources: the two
  functions of \<open>DataTransformer\<close>, the field lists of \<open>TUSHARE_CONFIG.FIELDS\<close>, and
  \<open>getDateDaysAgo\<close>, which reads the clock.
\<close>

record handler_imports =
  createDataMap :: "row list \<Rightarrow> data_map"
  batchMergeStockData :: "row list \<Rightarrow> data_map option \<Rightarrow> data_map option \<Rightarrow> Stock list"
  FIELDS_STOCK_BASIC :: string
  FIELDS_DAILY :: string
  FIELDS_DAILY_BASIC :: string
  getDateDaysAgo :: "nat \<Rightarrow> string"

text \<open>The host: the environment variable, the upstream service, and its floating-point
  rounding at exact halves.\<close>

record host =
  TUSHARE_TOKEN :: "string option"
  upstream :: "TushareRequestParams \<Rightarrow> upstream_outcome"
  rounds_up :: "nat \<Rightarrow> nat \<Rightarrow> bool"

text \<open>The query parameters, each as \<open>searchParams.get\<close> returns it.\<close>

record batch_query =
  q_market :: "string option"
  q_limit :: "string option"
  q_include_market_data :: "string option"
  q_include_basic_indicators :: "string option"
  q_list_status :: "string option"
  q_trade_date :: "string option"

record query_echo =
  echo_market :: "string option"
  echo_limit :: "js_parsed option"
  echo_include_market_data :: bool
  echo_include_basic_indicators :: bool
  echo_list_status :: string
  echo_trade_date :: string

text \<open>The successful response, without its time stamp.\<close>

record batch_response =
  resp_data :: "Stock list"
  resp_total :: nat
  resp_stats :: batch_stats
  resp_query :: query_echo

text \<open>
  Step 1, the limit: \<open>slice(0, limitNum)\<close> when \<open>limit\<close> parses to a positive number.
  A number beyond \<open>2^53\<close> is past the end of every array, so the slice is the whole array.
\<close>

definition apply_limit :: "string option \<Rightarrow> row list \<Rightarrow> row list" where
  "apply_limit limit stockBasicData =
     (if truthy limit
      then (case parseInt (the limit) of
              ParsedNaN \<Rightarrow> stockBasicData
            | Parsed limitNum \<Rightarrow> if 0 < limitNum then take (nat limitNum) stockBasicData
                                 else stockBasicData
            | ParsedBeyond negative \<Rightarrow> stockBasicData)
      else stockBasicData)"

text \<open>
  Steps 2 and 3, one optional overlay: fetched only when requested; a fetch that throws
  is caught and leaves the map undefined, and so does an empty result.
\<close>

definition overlay_map ::
  "handler_imports \<Rightarrow> bool \<Rightarrow> (js_error + row list) \<Rightarrow> data_map option" where
  "overlay_map imp requested fetched =
     (if requested
      then (case fetched of
              Inl e \<Rightarrow> None
            | Inr rows \<Rightarrow> if 0 < length rows then Some (createDataMap imp rows) else None)
      else None)"

text \<open>\<open>map?.size || 0\<close>.\<close>

definition map_size :: "data_map option \<Rightarrow> nat" where
  "map_size m = (case m of None \<Rightarrow> 0 | Some kvs \<Rightarrow> length kvs)"

text \<open>The parameters with defaults: \<open>list_status\<close> (listed stocks) and \<open>trade_date\<close>
  (yesterday).\<close>

definition list_status_of :: "batch_query \<Rightarrow> string" where
  "list_status_of q = or_default (q_list_status q) ''L''"

definition trade_date_of :: "handler_imports \<Rightarrow> batch_query \<Rightarrow> string" where
  "trade_date_of imp q = or_default (q_trade_date q) (getDateDaysAgo imp 1)"

text \<open>The parameters of the roster request: the exchange is set for a market filter.\<close>

definition stockBasicParams :: "handler_imports \<Rightarrow> batch_query \<Rightarrow> js_params" where
  "stockBasicParams imp q =
     [(''list_status'', list_status_of q), (''fields'', FIELDS_STOCK_BASIC imp)]
     @ (if q_market q = Some ''SH'' then [(''exchange'', ''SSE'')]
        else if q_market q = Some ''SZ'' then [(''exchange'', ''SZSE'')]
        else [])"

text \<open>
  The start of \<open>GET\<close> up to step 1: the checks of the parameters, the construction of the
  client and the fetch of the roster. It gives the thrown error, or the token of the
  client and the roster rows; and the requests sent upstream.
\<close>

definition step_1 :: "handler_imports \<Rightarrow> host \<Rightarrow> batch_query
    \<Rightarrow> (js_error + string \<times> row list) \<times> TushareRequestParams list" where
  "step_1 imp h q =
     (if truthy (q_market q) \<and> q_market q \<noteq> Some ''SH'' \<and> q_market q \<noteq> Some ''SZ''
      then (Inl MarketError, [])
      else
        (case dateFormat (trade_date_of imp q) ''trade_date'' of
           Inl e \<Rightarrow> (Inl e, [])
         | Inr u \<Rightarrow>
             (case new_TushareClient (TUSHARE_TOKEN h) of
                Inl e \<Rightarrow> (Inl e, [])
              | Inr tok \<Rightarrow>
                  (let basicReq = stock_basic_request tok (stockBasicParams imp q)
                   in case fetch_rows (upstream h) basicReq of
                        Inl e \<Rightarrow> (Inl e, [basicReq])
                      | Inr stockBasicData \<Rightarrow>
                          if length stockBasicData = 0 then (Inl NoRosterData, [basicReq])
                          else (Inr (tok, stockBasicData), [basicReq])))))"

text \<open>
  Steps 2 to 5 of \<open>GET\<close>, entered once the roster has arrived: the limit, the two
  optional overlays, the merge, the statistics and the response; with the overlay
  requests sent, in order.
\<close>

definition steps_2_to_5 ::
  "handler_imports \<Rightarrow> host \<Rightarrow> batch_query \<Rightarrow> string \<Rightarrow> row list
     \<Rightarrow> batch_response \<times> TushareRequestParams list" where
  "steps_2_to_5 imp h q tok stockBasicData =
     (let limit = q_limit q;
          include_market_data = (q_include_market_data q = Some ''true'');
          include_basic_indicators = (q_include_basic_indicators q = Some ''true'');
          trade_date = trade_date_of imp q;
          limitedStockData = apply_limit limit stockBasicData;
          dailyReq = daily_request tok
            [(''trade_date'', trade_date), (''fields'', FIELDS_DAILY imp)];
          dailyDataMap = overlay_map imp include_market_data (fetch_rows (upstream h) dailyReq);
          indicatorReq = daily_basic_request tok
            [(''trade_date'', trade_date), (''fields'', FIELDS_DAILY_BASIC imp)];
          basicIndicatorsMap = overlay_map imp include_basic_indicators
            (fetch_rows (upstream h) indicatorReq);
          stocks = batchMergeStockData imp limitedStockData dailyDataMap basicIndicatorsMap;
          stats = generateBatchStats (rounds_up h) stocks
            \<lparr>total_basic = length stockBasicData,
             processed = length limitedStockData,
             has_market_data = (dailyDataMap \<noteq> None),
             has_basic_indicators = (basicIndicatorsMap \<noteq> None),
             market_data_count = map_size dailyDataMap,
             basic_indicators_count = map_size basicIndicatorsMap,
             meta_trade_date = trade_date\<rparr>
      in (\<lparr>resp_data = stocks,
           resp_total = length stocks,
           resp_stats = stats,
           resp_query =
             \<lparr>echo_market = q_market q,
              echo_limit = (if truthy limit then Some (parseInt (the limit)) else None),
              echo_include_market_data = include_market_data,
              echo_include_basic_indicators = include_basic_indicators,
              echo_list_status = list_status_of q,
              echo_trade_date = trade_date\<rparr>\<rparr>,
          (if include_market_data then [dailyReq] else [])
          @ (if include_basic_indicators then [indicatorReq] else [])))"

text \<open>
  The body of \<open>GET\<close>: the response or the error thrown inside \<open>try\<close> (which the handler
  then passes to \<open>handleError\<close>), and the requests sent upstream, in order.
\<close>

definition GET :: "handler_imports \<Rightarrow> host \<Rightarrow> batch_query
    \<Rightarrow> (js_error + batch_response) \<times> TushareRequestParams list" where
  "GET imp h q =
     (case step_1 imp h q of
        (Inl e, requests) \<Rightarrow> (Inl e, requests)
      | (Inr (tok, stockBasicData), requests) \<Rightarrow>
          (case steps_2_to_5 imp h q tok stockBasicData of
             (response, later) \<Rightarrow> (Inr response, requests @ later)))"

text \<open>
  A sample deployment: imports whose merge reads the closing price of the quote row and
  the price/earnings ratio of the indicator row of each roster row; an upstream service
  that answers the roster request with one instrument and fails on every other request;
  one that also answers the indicator request and fails on the quote request only; one
  whose roster is empty; and queries for 2 January 2024.
\<close>

definition row_code :: "row \<Rightarrow> string" where
  "row_code r = (case get_prop r ''ts_code'' of JStr c \<Rightarrow> c | _ \<Rightarrow> [])"

definition sample_stock :: "data_map option \<Rightarrow> data_map option \<Rightarrow> row \<Rightarrow> Stock" where
  "sample_stock daily indicators r =
     quoted_stock\<lparr>stock_id := row_code r,
                   currentPrice :=
                     (case daily of
                        None \<Rightarrow> None
                      | Some m \<Rightarrow>
                          (case map_of m (row_code r) of
                             None \<Rightarrow> None
                           | Some quote \<Rightarrow>
                               (case get_prop quote ''close'' of JNum x \<Rightarrow> Some x | _ \<Rightarrow> None))),
                   pe_ttm_zh :=
                     (case indicators of
                        None \<Rightarrow> None
                      | Some m \<Rightarrow>
                          (case map_of m (row_code r) of
                             None \<Rightarrow> None
                           | Some ind \<Rightarrow>
                               (case get_prop ind ''pe'' of JNum x \<Rightarrow> Some x | _ \<Rightarrow> None)))\<rparr>"

definition sample_imports :: handler_imports where
  "sample_imports =
     \<lparr>createDataMap = (\<lambda>rows. map (\<lambda>r. (row_code r, r)) rows),
      batchMergeStockData = (\<lambda>roster daily indicators. map (sample_stock daily indicators) roster),
      FIELDS_STOCK_BASIC = ''ts_code,name'',
      FIELDS_DAILY = ''ts_code,trade_date,close'',
      FIELDS_DAILY_BASIC = ''ts_code,trade_date,pe'',
      getDateDaysAgo = (\<lambda>n. ''20240102'')\<rparr>"

definition roster_reply :: TushareResponse where
  "roster_reply =
     \<lparr>request_id = ''r1'', code = 0, msg = '''',
      data = Some \<lparr>data_fields = Some [''ts_code'', ''name''],
                    data_items = Some [[JStr ''600000.SH'', JStr ''A'']],
                    has_more = False\<rparr>\<rparr>"

definition roster_only_host :: host where
  "roster_only_host =
     \<lparr>TUSHARE_TOKEN = Some ''secret'',
      upstream = (\<lambda>req. if api_name req = ''stock_basic'' then Reply roster_reply
                         else Unreachable ''fetch failed''),
      rounds_up = (\<lambda>a n. True)\<rparr>"

definition indicator_reply :: TushareResponse where
  "indicator_reply =
     \<lparr>request_id = ''r2'', code = 0, msg = '''',
      data = Some \<lparr>data_fields = Some [''ts_code'', ''trade_date'', ''pe''],
                    data_items = Some [[JStr ''600000.SH'', JStr ''20240102'', JNum 12]],
                    has_more = False\<rparr>\<rparr>"

definition quote_down_host :: host where
  "quote_down_host =
     \<lparr>TUSHARE_TOKEN = Some ''secret'',
      upstream = (\<lambda>req. if api_name req = ''stock_basic'' then Reply roster_reply
                         else if api_name req = ''daily_basic'' then Reply indicator_reply
                         else Unreachable ''fetch failed''),
      rounds_up = (\<lambda>a n. True)\<rparr>"



definition plain_query :: batch_query where
  "plain_query =
     \<lparr>q_market = None, q_limit = None, q_include_market_data = None,
      q_include_basic_indicators = None, q_list_status = None, q_trade_date = Some ''20240102''\<rparr>"

definition overlay_query :: batch_query where
  "overlay_query =
     plain_query\<lparr>q_include_market_data := Some ''true'', q_include_basic_indicators := Some ''true''\<rparr>"




subsection \<open>The handlers that take an instrument code\<close>

text \<open>
  The handlers \<open>GET\<close> of the routes \<open>stk-mins\<close>, \<open>bak-daily\<close> and \<open>market-data\<close>, each
  from its first statement up to its first call of a client method: the result is the
  error that stops the handler before any request is sent, or the requests that the
  handler then sends upstream.
\<close>













section \<open>Properties\<close>

text \<open>
  C10. Neither validator throws on the empty string: both return normally for every field
  name, although the empty string matches neither the eight-digit date pattern nor the
  stock-code pattern.
\<close>

theorem validators_accept_empty_string:
  "dateFormat [] f = Inr () \<and> stockCode [] g = Inr ()
   \<and> \<not> matches_date [] \<and> \<not> matches_stock_code []"
  by (simp add: dateFormat_def stockCode_def matches_date_def matches_stock_code_def)

subsection \<open>transformResponse\<close>

lemma zip_row_snoc:
  "fold (\<lambda>(field, index) obj. assign_prop field (item_at item index) obj)
        (zip (fs @ [f]) [0..<length (fs @ [f])]) s
   = assign_prop f (item_at item (length fs))
       (fold (\<lambda>(field, index) obj. assign_prop field (item_at item index) obj)
             (zip fs [0..<length fs]) s)"
  by simp

lemma map_of_assign_prop:
  "k \<noteq> ''__proto__'' \<Longrightarrow>
   map_of (fst (assign_prop f v s)) k = (if f = k then Some v else map_of (fst s) k)"
  by (cases s) (auto simp: assign_prop_def update_conv')

lemma map_of_zip_row_last:
  "i < length fs \<Longrightarrow> fs ! i \<noteq> ''__proto__''
   \<Longrightarrow> (\<forall>j. i < j \<and> j < length fs \<longrightarrow> fs ! j \<noteq> fs ! i)
   \<Longrightarrow> map_of (zip_row fs item) (fs ! i) = Some (item_at item i)"
proof (induction fs rule: rev_induct)
  case Nil
  then show ?case by simp
next
  case (snoc f fs)
  have step: "zip_row (fs @ [f]) item
      = fst (assign_prop f (item_at item (length fs))
          (fold (\<lambda>(field, index) obj. assign_prop field (item_at item index) obj)
             (zip fs [0..<length fs]) ([], True)))"
    unfolding zip_row_def zip_row_snoc ..
  show ?case
  proof (cases "i = length fs")
    case True
    with snoc.prems(2) have "f \<noteq> ''__proto__''" by simp
    with True show ?thesis by (simp add: step map_of_assign_prop)
  next
    case False
    with snoc.prems(1) have lt: "i < length fs" by simp
    have "(fs @ [f]) ! length fs \<noteq> (fs @ [f]) ! i"
      using snoc.prems(3) lt by (metis length_append_singleton lessI)
    with lt have ne: "f \<noteq> fs ! i" by (simp add: nth_append)
    from snoc.prems(2) lt have np: "fs ! i \<noteq> ''__proto__''" by (simp add: nth_append)
    have later: "\<forall>j. i < j \<and> j < length fs \<longrightarrow> fs ! j \<noteq> fs ! i"
    proof (intro allI impI)
      fix j assume j: "i < j \<and> j < length fs"
      then have "(fs @ [f]) ! j \<noteq> (fs @ [f]) ! i"
        using snoc.prems(3) by (metis length_append_singleton less_Suc_eq)
      with j lt show "fs ! j \<noteq> fs ! i" by (simp add: nth_append)
    qed
    from snoc.IH [OF lt np later] have "map_of (zip_row fs item) (fs ! i) = Some (item_at item i)" .
    with ne lt np show ?thesis
      by (simp add: step map_of_assign_prop nth_append zip_row_def)
  qed
qed

text \<open>
  C9, as the code has it. A response whose data block, field list or item list is missing
  gives the empty array. Otherwise the output has one object per data row, and for every
  index \<open>i\<close> of the field list whose name is not \<open>__proto__\<close> and is not repeated at a
  later index, the object has the property \<open>fields[i]\<close> and its value is the row's
  \<open>i\<close>-th element (\<open>undefined\<close> when the row is shorter than the field list).
\<close>

theorem transformResponse_zips_rows:
  "((data response = None
      \<or> (\<exists>d. data response = Some d \<and> (data_fields d = None \<or> data_items d = None)))
     \<longrightarrow> transformResponse response = [])
   \<and> (\<forall>d fs its. data response = Some d \<and> data_fields d = Some fs \<and> data_items d = Some its
        \<longrightarrow> length (transformResponse response) = length its
          \<and> (\<forall>r i. r < length its \<and> i < length fs \<and> fs ! i \<noteq> ''__proto__''
                \<and> (\<forall>j. i < j \<and> j < length fs \<longrightarrow> fs ! j \<noteq> fs ! i)
              \<longrightarrow> map_of (transformResponse response ! r) (fs ! i) = Some (item_at (its ! r) i)))"
  by (auto simp: transformResponse_def map_of_zip_row_last split: option.splits)

text \<open>The two sample responses: no data block, and two rows of which the second is
  shorter than the field list.\<close>

theorem transformResponse_zips_rows_witness:
  "transformResponse resp_no_data = []
   \<and> length (transformResponse resp_two_rows) = 2
   \<and> map_of (transformResponse resp_two_rows ! 0) ''name'' = Some (JStr ''A'')
   \<and> map_of (transformResponse resp_two_rows ! 1) ''name'' = Some JUndefined"
proof -
  have none: "transformResponse resp_no_data = []"
    using transformResponse_zips_rows [of resp_no_data] by (simp add: resp_no_data_def)
  let ?fs = "[''ts_code'', ''name'']"
  let ?its = "[[JStr ''600000.SH'', JStr ''A''], [JStr ''000001.SZ'']]"
  let ?d = "\<lparr>data_fields = Some ?fs, data_items = Some ?its, has_more = False\<rparr>"
  have pre: "data resp_two_rows = Some ?d \<and> data_fields ?d = Some ?fs \<and> data_items ?d = Some ?its"
    by (simp add: resp_two_rows_def)
  from transformResponse_zips_rows [of resp_two_rows] pre
  have rows: "length (transformResponse resp_two_rows) = length ?its
      \<and> (\<forall>r i. r < length ?its \<and> i < length ?fs \<and> ?fs ! i \<noteq> ''__proto__''
                \<and> (\<forall>j. i < j \<and> j < length ?fs \<longrightarrow> ?fs ! j \<noteq> ?fs ! i)
              \<longrightarrow> map_of (transformResponse resp_two_rows ! r) (?fs ! i) = Some (item_at (?its ! r) i))"
    by blast
  then have len: "length (transformResponse resp_two_rows) = 2" by simp
  from rows have each: "\<And>r i. r < length ?its \<Longrightarrow> i < length ?fs \<Longrightarrow> ?fs ! i \<noteq> ''__proto__''
      \<Longrightarrow> (\<forall>j. i < j \<and> j < length ?fs \<longrightarrow> ?fs ! j \<noteq> ?fs ! i)
      \<Longrightarrow> map_of (transformResponse resp_two_rows ! r) (?fs ! i) = Some (item_at (?its ! r) i)"
    by blast
  have "map_of (transformResponse resp_two_rows ! 0) (?fs ! 1) = Some (item_at (?its ! 0) 1)"
    by (rule each) simp_all
  then have r0: "map_of (transformResponse resp_two_rows ! 0) ''name'' = Some (JStr ''A'')"
    by (simp add: item_at_def)
  have "map_of (transformResponse resp_two_rows ! 1) (?fs ! 1) = Some (item_at (?its ! 1) 1)"
    by (rule each) simp_all
  then have r1: "map_of (transformResponse resp_two_rows ! 1) ''name'' = Some JUndefined"
    by (simp add: item_at_def)
  from none len r0 r1 show ?thesis by simp
qed

text \<open>
  With the field name \<open>a\<close> listed twice and the row \<open>[1, 2]\<close>, the object's value at
  \<open>fields[0]\<close> is 2, not the row's element 0. With the field list \<open>__proto__\<close>, \<open>x\<close> and
  the row \<open>['p', 'q']\<close>, the object is \<open>{x: 'q'}\<close>: it has no property \<open>fields[0]\<close>
  that holds the row's element 0.
\<close>

theorem transformResponse_repeated_field_counterexample:
  "map_of (transformResponse resp_repeated_field ! 0) ([''a'', ''a''] ! 0) = Some (JNum 2)
   \<and> item_at [JNum 1, JNum 2] 0 = JNum 1
   \<and> transformResponse resp_proto_field = [[(''x'', JStr ''q'')]]
   \<and> map_of (transformResponse resp_proto_field ! 0) ([''__proto__'', ''x''] ! 0) = None
   \<and> item_at [JStr ''p'', JStr ''q''] 0 = JStr ''p''"
  by (simp add: resp_repeated_field_def resp_proto_field_def transformResponse_def zip_row_def
      assign_prop_def item_at_def)

subsection \<open>The generated month\<close>

lemma month_length_pos: "1 \<le> month_length y m"
  by (simp add: month_length_def)

lemma month_length_le: "month_length y m \<le> 31"
  by (simp add: month_length_def)

lemma civil_day_day0:
  assumes "100 \<le> year" "1 \<le> month" "month \<le> 12"
  shows "civil_day year (int month) 0
     = \<lparr>getFullYear = year, getMonth = month - 1, getDate = month_length year (month - 1)\<rparr>"
proof (cases "month = 12")
  case True
  then show ?thesis using assms by (simp add: civil_day_def Let_def month_length_def)
next
  case False
  with assms have "int month div 12 = 0" "int month mod 12 = int month" by simp_all
  with assms show ?thesis by (simp add: civil_day_def Let_def)
qed

lemma civil_day_in_month:
  assumes "100 \<le> year" "1 \<le> month" "month \<le> 12" "1 \<le> d" "d \<le> month_length year (month - 1)"
  shows "civil_day year (int month - 1) d = \<lparr>getFullYear = year, getMonth = month - 1, getDate = d\<rparr>"
proof -
  from assms have "(int month - 1) div 12 = 0" "(int month - 1) mod 12 = int month - 1" by simp_all
  moreover from assms have "nat (int month - 1) = month - 1" by simp
  ultimately show ?thesis using assms
    by (simp add: civil_day_def Let_def carry_days.simps)
qed

lemma has_every_dayD:
  "has_every_day zone y m \<Longrightarrow> 1 \<le> d \<Longrightarrow> d \<le> month_length y m
   \<Longrightarrow> zone \<lparr>getFullYear = y, getMonth = m, getDate = d\<rparr>
       = \<lparr>getFullYear = y, getMonth = m, getDate = d\<rparr>"
  by (cases "d = month_length y m") (auto simp: has_every_day_def list_all_iff simp del: upt_Suc)

lemma has_every_day_no_skip: "has_every_day no_skip y m"
  by (simp add: has_every_day_def list_all_iff no_skip_def)

lemma Date_new_day0:
  assumes "100 \<le> year" "1 \<le> month" "month \<le> 12" "has_every_day zone year (month - 1)"
  shows "getDate (Date_new zone year (int month) 0) = month_length year (month - 1)"
  using assms month_length_pos [of year "month - 1"]
  by (simp add: Date_new_def civil_day_day0 has_every_dayD)

lemma Date_new_in_month:
  assumes "100 \<le> year" "1 \<le> month" "month \<le> 12" "has_every_day zone year (month - 1)"
    "1 \<le> d" "d \<le> month_length year (month - 1)"
  shows "Date_new zone year (int month - 1) d
     = \<lparr>getFullYear = year, getMonth = month - 1, getDate = d\<rparr>"
  using assms by (simp add: Date_new_def civil_day_in_month has_every_dayD)

lemma transformToCalendarDates_days:
  assumes "100 \<le> year" "1 \<le> month" "month \<le> 12" "has_every_day zone year (month - 1)"
  shows "transformToCalendarDates zone exch toISODate apiData year month =
     map (\<lambda>day. calendarDate exch toISODate (tradeMap apiData)
                   \<lparr>getFullYear = year, getMonth = month - 1, getDate = day\<rparr>)
         [1..<Suc (month_length year (month - 1))]"
  using assms
  by (simp add: transformToCalendarDates_def Let_def Date_new_day0 Date_new_in_month del: upt_Suc)

lemma date_calendarDate: "date (calendarDate exch toISODate tm d) = d"
  by (simp add: calendarDate_def Let_def)

lemma tradeDate_calendarDate:
  "tradeDate (calendarDate exch toISODate tm d) = formatDateToString d"
  by (simp add: calendarDate_def Let_def)

lemma isWeekend_calendarDate:
  "isWeekend (calendarDate exch toISODate tm d) \<longleftrightarrow> getDay d = 0 \<or> getDay d = 6"
  by (simp add: calendarDate_def Let_def)

lemma sorted_wrt_map_upt:
  "(\<And>i j. i < j \<Longrightarrow> P (f i) (f j)) \<Longrightarrow> sorted_wrt P (map f [a..<b])"
  by (simp add: sorted_wrt_map sorted_wrt_iff_nth_less)

lemma tradeMap_snoc: "tradeMap (xs @ [x]) = (tradeMap xs)(cal_date x \<mapsto> x)"
  by (simp add: tradeMap_def)

lemma tradeMap_last_marker:
  "tradeMap apiData k = find (\<lambda>item. cal_date item = k) (rev apiData)"
  by (induction apiData rule: rev_induct) (simp_all add: tradeMap_snoc, simp add: tradeMap_def)

lemma in_calendar_any:
  assumes "c \<in> set (transformToCalendarDates zone exch toISODate apiData year month)"
  shows "c = calendarDate exch toISODate (tradeMap apiData) (date c)"
  using assms by (auto simp: transformToCalendarDates_def Let_def date_calendarDate simp del: upt_Suc)

lemma entry_flags:
  assumes "c \<in> set (transformToCalendarDates zone exch toISODate apiData year month)"
  shows "tradeDate c = formatDateToString (date c)"
    and "isWeekend c \<longleftrightarrow> getDay (date c) = 0 \<or> getDay (date c) = 6"
    and "isTrading c = (case find (\<lambda>item. cal_date item = tradeDate c) (rev apiData) of
                          None \<Rightarrow> False | Some t \<Rightarrow> is_open t = 1)"
    and "isHoliday c = (case find (\<lambda>item. cal_date item = tradeDate c) (rev apiData) of
                          None \<Rightarrow> False | Some t \<Rightarrow> is_open t = 0 \<and> \<not> isWeekend c)"
proof -
  let ?d = "date c"
  have c: "c = calendarDate exch toISODate (tradeMap apiData) ?d"
    using assms by (rule in_calendar_any)
  show td: "tradeDate c = formatDateToString ?d"
    by (subst c) (simp add: calendarDate_def Let_def)
  show we: "isWeekend c \<longleftrightarrow> getDay ?d = 0 \<or> getDay ?d = 6"
    by (subst c) (simp add: calendarDate_def Let_def)
  show "isTrading c = (case find (\<lambda>item. cal_date item = tradeDate c) (rev apiData) of
                          None \<Rightarrow> False | Some t \<Rightarrow> is_open t = 1)"
    unfolding td tradeMap_last_marker [symmetric]
    by (subst c) (simp add: calendarDate_def Let_def)
  show "isHoliday c = (case find (\<lambda>item. cal_date item = tradeDate c) (rev apiData) of
                          None \<Rightarrow> False | Some t \<Rightarrow> is_open t = 0 \<and> \<not> isWeekend c)"
    unfolding td we tradeMap_last_marker [symmetric]
    by (subst c) (simp add: calendarDate_def Let_def)
qed

text \<open>
  C5. For every generated day, in every time zone: with no marker for its date it is
  neither a trading day nor a holiday; when the marker in effect for its date (the last
  one in the input with that date) says open, it is a trading day and not a holiday; when
  that marker says closed, it is not a trading day and it is a holiday exactly when it is
  not a weekend day; and the weekend flag is the week day being Sunday (0) or Saturday
  (6), the same flag as with no markers at all.
\<close>

theorem calendar_flags:
  assumes "c \<in> set (transformToCalendarDates zone exch toISODate apiData year month)"
  shows "(find (\<lambda>item. cal_date item = tradeDate c) (rev apiData) = None
            \<longrightarrow> \<not> isTrading c \<and> \<not> isHoliday c)
       \<and> (\<forall>item. find (\<lambda>item. cal_date item = tradeDate c) (rev apiData) = Some item \<and> is_open item = 1
            \<longrightarrow> isTrading c \<and> \<not> isHoliday c)
       \<and> (\<forall>item. find (\<lambda>item. cal_date item = tradeDate c) (rev apiData) = Some item \<and> is_open item = 0
            \<longrightarrow> \<not> isTrading c \<and> (isHoliday c \<longleftrightarrow> \<not> isWeekend c))
       \<and> (isWeekend c \<longleftrightarrow> getDay (date c) = 0 \<or> getDay (date c) = 6)
       \<and> isWeekend c = isWeekend (calendarDate exch toISODate Map.empty (date c))"
  using entry_flags [OF assms] by (simp add: isWeekend_calendarDate)

text \<open>
  C6, as the code has it. For a generated day whose marker in effect is open (1) or
  closed (0): unless the marker says open and the day is a Saturday or Sunday, exactly
  one of \<open>isTrading\<close> and (\<open>isHoliday\<close> or \<open>isWeekend\<close>) holds; a day marked open on a
  Saturday or Sunday has both \<open>isTrading\<close> and \<open>isWeekend\<close>.
\<close>

theorem marked_day_exclusive:
  assumes "c \<in> set (transformToCalendarDates zone exch toISODate apiData year month)"
    and "find (\<lambda>item. cal_date item = tradeDate c) (rev apiData) = Some item"
    and "is_open item = 0 \<or> is_open item = 1"
  shows "(is_open item = 1 \<and> isWeekend c \<longrightarrow> isTrading c \<and> isWeekend c \<and> \<not> isHoliday c)
       \<and> (\<not> (is_open item = 1 \<and> isWeekend c) \<longrightarrow> (isTrading c \<longleftrightarrow> \<not> (isHoliday c \<or> isWeekend c)))"
  using entry_flags(3,4) [OF assms(1)] assms(2,3) by auto

lemma digit_inj: "a < 10 \<Longrightarrow> b < 10 \<Longrightarrow> ''0123456789'' ! a = ''0123456789'' ! b \<Longrightarrow> a = b"
proof -
  assume "a < 10" "b < 10" "''0123456789'' ! a = ''0123456789'' ! b"
  moreover have "distinct ''0123456789''" by simp
  ultimately show "a = b" by (simp add: nth_eq_iff_index_eq)
qed

lemma padStart2_two_digits:
  "d < 100 \<Longrightarrow> padStart2 (String_of d) = [''0123456789'' ! (d div 10), ''0123456789'' ! (d mod 10)]"
  by (cases "d < 10") (simp_all add: padStart2_def String_of.simps [of d] String_of.simps [of "d div 10"])

lemma padStart2_inj:
  assumes "a < 100" "b < 100" "padStart2 (String_of a) = padStart2 (String_of b)"
  shows "a = b"
proof -
  from assms have "''0123456789'' ! (a div 10) = ''0123456789'' ! (b div 10)"
    and "''0123456789'' ! (a mod 10) = ''0123456789'' ! (b mod 10)"
    by (simp_all add: padStart2_two_digits)
  moreover from assms have "a div 10 < 10" "b div 10 < 10" by simp_all
  ultimately have "a div 10 = b div 10" "a mod 10 = b mod 10"
    by (auto intro: digit_inj)
  then show ?thesis by (metis div_mult_mod_eq)
qed

lemma isTrading_no_markers: "\<not> isTrading (calendarDate exch toISODate (tradeMap []) d)"
  by (simp add: calendarDate_def Let_def tradeMap_def)

lemma getDay_feb_2024: "getDay \<lparr>getFullYear = 2024, getMonth = Suc 0, getDate = d\<rparr> = (d + 3) mod 7"
proof -
  have "day_number \<lparr>getFullYear = 2024, getMonth = Suc 0, getDate = d\<rparr> = 19753 + int d"
    by (simp add: day_number_def DayFromYear_def days_before_month_def month_length_def)
  then have "getDay \<lparr>getFullYear = 2024, getMonth = Suc 0, getDate = d\<rparr> = nat ((int d + 19757) mod 7)"
    by (simp add: getDay_def add.commute)
  also have "\<dots> = nat (int ((d + 19757) mod 7))" by (simp add: zmod_int add.commute)
  also have "\<dots> = (d + 3) mod 7" by (simp only: nat_int) presburger
  finally show ?thesis .
qed

lemma month_length_feb_2024: "month_length 2024 (Suc 0) = 29"
  by (simp add: month_length_def is_leap_def)

lemma feb_2024_days:
  assumes "has_every_day zone 2024 (Suc 0)"
  shows "transformToCalendarDates zone exch toISODate apiData 2024 2 =
     map (\<lambda>day. calendarDate exch toISODate (tradeMap apiData)
                   \<lparr>getFullYear = 2024, getMonth = 1, getDate = day\<rparr>) [1..<30]"
  using transformToCalendarDates_days [of 2024 2 zone exch toISODate apiData] assms
  by (simp add: month_length_feb_2024)

lemma upt_1_30: "[1..<30] = [1,2,3,4,5,6,7,8,9,10,11,12,13,14,15,16,17,18,19,20,21,22,23,24,25,26,27,28,29::nat]"
  by code_simp

lemma feb_2024:
  assumes "has_every_day zone 2024 (Suc 0)"
  shows "length (transformToCalendarDates zone exch toISODate [] 2024 2) = 29
   \<and> map isTrading (transformToCalendarDates zone exch toISODate [] 2024 2) = replicate 29 False
   \<and> map isWeekend (transformToCalendarDates zone exch toISODate [] 2024 2) =
       [False, False, True, True, False, False, False,
        False, False, True, True, False, False, False,
        False, False, True, True, False, False, False,
        False, False, True, True, False, False, False, False]"
proof -
  note days = feb_2024_days [OF assms, of exch toISODate "[]"]
  have l: "length (transformToCalendarDates zone exch toISODate [] 2024 2) = 29"
    by (simp add: days)
  have t: "map isTrading (transformToCalendarDates zone exch toISODate [] 2024 2) = replicate 29 False"
    unfolding days upt_1_30 by (simp add: isTrading_no_markers numeral_eq_Suc)
  have w: "map isWeekend (transformToCalendarDates zone exch toISODate [] 2024 2) =
       [False, False, True, True, False, False, False,
        False, False, True, True, False, False, False,
        False, False, True, True, False, False, False,
        False, False, True, True, False, False, False, False]"
    unfolding days upt_1_30 by (simp add: isWeekend_calendarDate getDay_feb_2024)
  from l t w show ?thesis by simp
qed

lemma month_length_table:
  assumes "1 \<le> month" "month \<le> 12"
  shows "month_length year (month - 1) =
     (if month = 2 then (if (year mod 4 = 0 \<and> year mod 100 \<noteq> 0) \<or> year mod 400 = 0 then 29 else 28)
      else if month = 4 \<or> month = 6 \<or> month = 9 \<or> month = 11 then 30 else 31)"
proof -
  from assms have "month = 1 \<or> month = 2 \<or> month = 3 \<or> month = 4 \<or> month = 5 \<or> month = 6
      \<or> month = 7 \<or> month = 8 \<or> month = 9 \<or> month = 10 \<or> month = 11 \<or> month = 12"
    by arith
  then show ?thesis by (elim disjE) (simp_all add: month_length_def is_leap_def)
qed

lemma tradeDate_inj_on_days:
  "inj_on (\<lambda>day. tradeDate (calendarDate exch toISODate tm
             \<lparr>getFullYear = y, getMonth = m, getDate = day\<rparr>)) {1..<Suc (month_length y m)}"
proof (rule inj_onI)
  fix a b
  assume a: "a \<in> {1..<Suc (month_length y m)}" and b: "b \<in> {1..<Suc (month_length y m)}"
    and eq: "tradeDate (calendarDate exch toISODate tm \<lparr>getFullYear = y, getMonth = m, getDate = a\<rparr>)
           = tradeDate (calendarDate exch toISODate tm \<lparr>getFullYear = y, getMonth = m, getDate = b\<rparr>)"
  from a b month_length_le [of y m] have "a < 100" "b < 100" by auto
  moreover from eq have "padStart2 (String_of a) = padStart2 (String_of b)"
    by (simp add: tradeDate_calendarDate formatDateToString_def)
  ultimately show "a = b" by (rule padStart2_inj)
qed

text \<open>
  C4, as the code has it. For a year from 100 on within the range of \<open>Date\<close> (the
  four-digit years of the month keys among them) and a month from 1 to 12, on a host
  whose time zone has every day of that month, the generator returns as many entries as
  the month has days: 28 or 29 for February by the leap-year rule, 30 for April, June,
  September and November, 31 otherwise. The entries are the days 1, 2, ... of that month
  in this order, so their dates ascend strictly and their date strings are pairwise
  different. For February 2024 with no markers, on a host whose zone has every day of
  that month, there are 29 entries, none is a trading day, and the weekend flags are set
  exactly on the 3rd, 4th, 10th, 11th, 17th, 18th, 24th and 25th.
\<close>

theorem calendar_month_days:
  "(100 \<le> year \<and> year < 275760 \<and> 1 \<le> month \<and> month \<le> 12
      \<and> has_every_day zone year (month - 1) \<longrightarrow>
      length (transformToCalendarDates zone exch toISODate apiData year month) =
        (if month = 2
         then (if (year mod 4 = 0 \<and> year mod 100 \<noteq> 0) \<or> year mod 400 = 0 then 29 else 28)
         else if month = 4 \<or> month = 6 \<or> month = 9 \<or> month = 11 then 30 else 31)
      \<and> map date (transformToCalendarDates zone exch toISODate apiData year month) =
          map (\<lambda>d. \<lparr>getFullYear = year, getMonth = month - 1, getDate = d\<rparr>)
              [1..<Suc (length (transformToCalendarDates zone exch toISODate apiData year month))]
      \<and> sorted_wrt (\<lambda>a b. day_number (date a) < day_number (date b))
          (transformToCalendarDates zone exch toISODate apiData year month)
      \<and> distinct (map tradeDate (transformToCalendarDates zone exch toISODate apiData year month)))
   \<and> (has_every_day zone 2024 1 \<longrightarrow>
        length (transformToCalendarDates zone exch toISODate [] 2024 2) = 29
        \<and> map isTrading (transformToCalendarDates zone exch toISODate [] 2024 2) = replicate 29 False
        \<and> map isWeekend (transformToCalendarDates zone exch toISODate [] 2024 2) =
            [False, False, True, True, False, False, False,
             False, False, True, True, False, False, False,
             False, False, True, True, False, False, False,
             False, False, True, True, False, False, False, False])"
proof -
  have general: "length (transformToCalendarDates zone exch toISODate apiData year month) =
        (if month = 2
         then (if (year mod 4 = 0 \<and> year mod 100 \<noteq> 0) \<or> year mod 400 = 0 then 29 else 28)
         else if month = 4 \<or> month = 6 \<or> month = 9 \<or> month = 11 then 30 else 31)
      \<and> map date (transformToCalendarDates zone exch toISODate apiData year month) =
          map (\<lambda>d. \<lparr>getFullYear = year, getMonth = month - 1, getDate = d\<rparr>)
              [1..<Suc (length (transformToCalendarDates zone exch toISODate apiData year month))]
      \<and> sorted_wrt (\<lambda>a b. day_number (date a) < day_number (date b))
          (transformToCalendarDates zone exch toISODate apiData year month)
      \<and> distinct (map tradeDate (transformToCalendarDates zone exch toISODate apiData year month))"
    if range: "100 \<le> year" "1 \<le> month" "month \<le> 12" "has_every_day zone year (month - 1)"
  proof -
    let ?n = "month_length year (month - 1)"
    let ?mk = "\<lambda>day. calendarDate exch toISODate (tradeMap apiData)
                   \<lparr>getFullYear = year, getMonth = month - 1, getDate = day\<rparr>"
    have R: "transformToCalendarDates zone exch toISODate apiData year month = map ?mk [1..<Suc ?n]"
      using range by (rule transformToCalendarDates_days)
    have len: "length (transformToCalendarDates zone exch toISODate apiData year month) = ?n"
      unfolding R by simp
    have tab: "length (transformToCalendarDates zone exch toISODate apiData year month) =
        (if month = 2
         then (if (year mod 4 = 0 \<and> year mod 100 \<noteq> 0) \<or> year mod 400 = 0 then 29 else 28)
         else if month = 4 \<or> month = 6 \<or> month = 9 \<or> month = 11 then 30 else 31)"
      unfolding len using range(2,3) by (rule month_length_table)
    have dates: "map date (transformToCalendarDates zone exch toISODate apiData year month) =
          map (\<lambda>d. \<lparr>getFullYear = year, getMonth = month - 1, getDate = d\<rparr>)
              [1..<Suc (length (transformToCalendarDates zone exch toISODate apiData year month))]"
      unfolding len unfolding R by (simp add: date_calendarDate o_def del: upt_Suc)
    have asc: "sorted_wrt (\<lambda>a b. day_number (date a) < day_number (date b))
          (transformToCalendarDates zone exch toISODate apiData year month)"
      unfolding R
      by (rule sorted_wrt_map_upt) (simp add: date_calendarDate day_number_def)
    have uniq: "distinct (map tradeDate (transformToCalendarDates zone exch toISODate apiData year month))"
      unfolding R using tradeDate_inj_on_days [of exch toISODate "tradeMap apiData" year "month - 1"]
      by (simp add: distinct_map o_def del: upt_Suc)
    from tab dates asc uniq show ?thesis by blast
  qed
  moreover have "has_every_day zone 2024 1 \<longrightarrow>
        length (transformToCalendarDates zone exch toISODate [] 2024 2) = 29
        \<and> map isTrading (transformToCalendarDates zone exch toISODate [] 2024 2) = replicate 29 False
        \<and> map isWeekend (transformToCalendarDates zone exch toISODate [] 2024 2) =
            [False, False, True, True, False, False, False,
             False, False, True, True, False, False, False,
             False, False, True, True, False, False, False,
             False, False, True, True, False, False, False, False]"
    using feb_2024 [of zone exch toISODate] by simp
  ultimately show ?thesis by blast
qed


text \<open>February 2023 and February 2024 on a host whose zone skips no day.\<close>

theorem calendar_month_days_witness:
  "(100::nat) \<le> 2023 \<and> (2023::nat) < 275760 \<and> (1::nat) \<le> 2 \<and> (2::nat) \<le> 12
   \<and> has_every_day no_skip 2023 (2 - 1)
   \<and> length (transformToCalendarDates no_skip ''SSE'' (\<lambda>d. []) [] 2023 2) = 28
   \<and> map (getDate \<circ> date) (transformToCalendarDates no_skip ''SSE'' (\<lambda>d. []) [] 2023 2) = [1..<29]
   \<and> has_every_day no_skip 2024 1
   \<and> length (transformToCalendarDates no_skip ''SSE'' (\<lambda>d. []) [] 2024 2) = 29"
proof -
  have r: "(100::nat) \<le> 2023 \<and> (2023::nat) < 275760 \<and> (1::nat) \<le> 2 \<and> (2::nat) \<le> 12
      \<and> has_every_day no_skip 2023 (2 - 1)"
    by (simp add: has_every_day_no_skip)
  have e: "has_every_day no_skip 2024 1" by (rule has_every_day_no_skip)
  let ?R = "transformToCalendarDates no_skip ''SSE'' (\<lambda>d. []) [] 2023 2"
  note thm2023 = calendar_month_days [of 2023 2 no_skip "''SSE''" "\<lambda>d. []" "[]"]
  from r thm2023
  have l0: "length ?R = (if (2::nat) = 2
         then (if ((2023::nat) mod 4 = 0 \<and> (2023::nat) mod 100 \<noteq> 0) \<or> (2023::nat) mod 400 = 0
               then 29 else 28)
         else if (2::nat) = 4 \<or> (2::nat) = 6 \<or> (2::nat) = 9 \<or> (2::nat) = 11 then 30 else 31)"
    and d: "map date ?R =
          map (\<lambda>d. \<lparr>getFullYear = 2023, getMonth = 2 - 1, getDate = d\<rparr>) [1..<Suc (length ?R)]"
    by blast+
  from l0 have l: "length ?R = 28" by simp
  from d have g: "map getDate (map date ?R) = [1..<29]"
    unfolding l by (simp add: o_def del: upt_Suc)
  from e thm2023
  have f: "length (transformToCalendarDates no_skip ''SSE'' (\<lambda>d. []) [] 2024 2) = 29"
    by blast
  from r e l g f show ?thesis by simp
qed

lemma nth_Date_new:
  assumes "100 \<le> year" "1 \<le> month" "month \<le> 12" "k < month_length year (month - 1)"
    and "getDate (Date_new zone year (int month) 0) = month_length year (month - 1)"
  shows "transformToCalendarDates zone exch toISODate apiData year month ! k =
     calendarDate exch toISODate (tradeMap apiData)
       (zone \<lparr>getFullYear = year, getMonth = month - 1, getDate = Suc k\<rparr>)"
  using assms
  by (simp add: transformToCalendarDates_def Let_def Date_new_def civil_day_in_month del: upt_Suc)

text \<open>
  A host in the zone of Apia, which has no 30 December 2011. For December 2011 the
  generator returns 31 entries, and the 30th and the 31st both carry the date 20111231:
  the entries are not one per calendar day and their dates are not unique.
\<close>

theorem skipped_day_counterexample:
  "length apia_calendar = 31
   \<and> tradeDate (apia_calendar ! 29) = ''20111231''
   \<and> tradeDate (apia_calendar ! 30) = ''20111231''
   \<and> \<not> distinct (map tradeDate apia_calendar)"
proof -
  have m: "month_length 2011 11 = 31" by (simp add: month_length_def)
  have "civil_day 2011 (int 12) 0
      = \<lparr>getFullYear = 2011, getMonth = 12 - 1, getDate = month_length 2011 (12 - 1)\<rparr>"
    by (rule civil_day_day0) simp_all
  then have n: "getDate (Date_new apia 2011 12 0) = 31"
    by (simp add: Date_new_def apia_def m)
  have l: "length apia_calendar = 31"
    unfolding apia_calendar_def transformToCalendarDates_def Let_def by (simp add: n)
  have s: "formatDateToString \<lparr>getFullYear = 2011, getMonth = 11, getDate = 31\<rparr> = ''20111231''"
    by code_simp
  have "apia_calendar ! 29 = calendarDate ''SSE'' (\<lambda>d. []) (tradeMap [])
       (apia \<lparr>getFullYear = 2011, getMonth = 12 - 1, getDate = Suc 29\<rparr>)"
    unfolding apia_calendar_def by (rule nth_Date_new) (simp_all add: m n)
  then have a: "tradeDate (apia_calendar ! 29) = ''20111231''"
    by (simp add: tradeDate_calendarDate apia_def s)
  have "apia_calendar ! 30 = calendarDate ''SSE'' (\<lambda>d. []) (tradeMap [])
       (apia \<lparr>getFullYear = 2011, getMonth = 12 - 1, getDate = Suc 30\<rparr>)"
    unfolding apia_calendar_def by (rule nth_Date_new) (simp_all add: m n)
  then have b: "tradeDate (apia_calendar ! 30) = ''20111231''"
    by (simp add: tradeDate_calendarDate apia_def s)
  have "\<not> distinct (map tradeDate apia_calendar)"
  proof
    assume d: "distinct (map tradeDate apia_calendar)"
    have "(29::nat) < length (map tradeDate apia_calendar)"
      and "(30::nat) < length (map tradeDate apia_calendar)"
      by (simp_all add: l)
    with d have "(map tradeDate apia_calendar ! 29 = map tradeDate apia_calendar ! 30)
        = ((29::nat) = 30)"
      by (rule nth_eq_iff_index_eq)
    with a b l show False by simp
  qed
  with l a b show ?thesis by simp
qed

lemma nth_calendar:
  assumes "100 \<le> year" "1 \<le> month" "month \<le> 12" "k < month_length year (month - 1)"
  shows "transformToCalendarDates no_skip exch toISODate apiData year month ! k =
     calendarDate exch toISODate (tradeMap apiData)
       \<lparr>getFullYear = year, getMonth = month - 1, getDate = Suc k\<rparr>"
  using assms by (simp add: transformToCalendarDates_days has_every_day_no_skip del: upt_Suc)

lemma feb_2024_tradeDate:
  "k < 29 \<Longrightarrow> tradeDate (transformToCalendarDates no_skip exch toISODate apiData 2024 2 ! k) =
     ''202402'' @ [''0123456789'' ! (Suc k div 10), ''0123456789'' ! (Suc k mod 10)]"
proof -
  assume k: "k < 29"
  have y: "String_of 2024 = ''2024''" by code_simp
  have m: "padStart2 (String_of 2) = ''02''" by code_simp
  have "month_length 2024 (2 - 1) = 29" by (simp add: month_length_def is_leap_def)
  with k show ?thesis
    by (simp add: nth_calendar tradeDate_calendarDate formatDateToString_def y m
        padStart2_two_digits)
qed

lemma feb_2024_mem:
  "k < 29 \<Longrightarrow> transformToCalendarDates no_skip exch toISODate apiData 2024 2 ! k
     \<in> set (transformToCalendarDates no_skip exch toISODate apiData 2024 2)"
proof -
  assume "k < 29"
  moreover have "length (transformToCalendarDates no_skip exch toISODate apiData 2024 2) = 29"
    using transformToCalendarDates_days [of 2024 2 no_skip exch toISODate apiData]
    by (simp add: month_length_def is_leap_def has_every_day_no_skip)
  ultimately show ?thesis by simp
qed

lemma feb_2024_weekend:
  "k < 29 \<Longrightarrow> isWeekend (transformToCalendarDates no_skip exch toISODate apiData 2024 2 ! k)
     \<longleftrightarrow> (4 + k) mod 7 = 0 \<or> (4 + k) mod 7 = 6"
proof -
  assume k: "k < 29"
  have "month_length 2024 (2 - 1) = 29" by (simp add: month_length_def is_leap_def)
  with k show ?thesis
    by (simp add: nth_calendar isWeekend_calendarDate getDay_feb_2024)
qed

text \<open>February 2024 with the sample markers: the 1st open, the 2nd closed on a Friday,
  the 3rd closed on a Saturday, the 5th without a marker.\<close>

theorem calendar_flags_witness:
  "isTrading (feb_calendar ! 0) \<and> \<not> isHoliday (feb_calendar ! 0)
   \<and> \<not> isTrading (feb_calendar ! 1) \<and> isHoliday (feb_calendar ! 1) \<and> \<not> isWeekend (feb_calendar ! 1)
   \<and> \<not> isTrading (feb_calendar ! 2) \<and> \<not> isHoliday (feb_calendar ! 2) \<and> isWeekend (feb_calendar ! 2)
   \<and> \<not> isTrading (feb_calendar ! 4) \<and> \<not> isHoliday (feb_calendar ! 4)"
proof -
  have d0: "isTrading (feb_calendar ! 0) \<and> \<not> isHoliday (feb_calendar ! 0)"
    using calendar_flags [OF feb_2024_mem [of 0 "''SSE''" "\<lambda>d. []" feb_markers]]
    unfolding feb_calendar_def
    by (simp add: feb_2024_tradeDate feb_markers_def)
  have d1: "\<not> isTrading (feb_calendar ! 1) \<and> isHoliday (feb_calendar ! 1) \<and> \<not> isWeekend (feb_calendar ! 1)"
    using calendar_flags [OF feb_2024_mem [of 1 "''SSE''" "\<lambda>d. []" feb_markers]]
      feb_2024_weekend [of 1 "''SSE''" "\<lambda>d. []" feb_markers]
    unfolding feb_calendar_def
    by (simp add: feb_2024_tradeDate feb_markers_def)
  have d2: "\<not> isTrading (feb_calendar ! 2) \<and> \<not> isHoliday (feb_calendar ! 2) \<and> isWeekend (feb_calendar ! 2)"
    using calendar_flags [OF feb_2024_mem [of 2 "''SSE''" "\<lambda>d. []" feb_markers]]
      feb_2024_weekend [of 2 "''SSE''" "\<lambda>d. []" feb_markers]
    unfolding feb_calendar_def
    by (simp add: feb_2024_tradeDate feb_markers_def)
  have d4: "\<not> isTrading (feb_calendar ! 4) \<and> \<not> isHoliday (feb_calendar ! 4)"
    using calendar_flags [OF feb_2024_mem [of 4 "''SSE''" "\<lambda>d. []" feb_markers]]
    unfolding feb_calendar_def
    by (simp add: feb_2024_tradeDate feb_markers_def)
  from d0 d1 d2 d4 show ?thesis by simp
qed

text \<open>Thursday 1 February 2024 marked open, and Saturday 3 February 2024 marked open.\<close>

theorem marked_day_exclusive_witness:
  "(isTrading (feb_calendar ! 0) \<longleftrightarrow> \<not> (isHoliday (feb_calendar ! 0) \<or> isWeekend (feb_calendar ! 0)))
   \<and> isTrading (saturday_calendar ! 2) \<and> isWeekend (saturday_calendar ! 2)
   \<and> \<not> isHoliday (saturday_calendar ! 2)"
proof -
  have f0: "find (\<lambda>item. cal_date item = tradeDate (feb_calendar ! 0)) (rev feb_markers)
      = Some (feb_markers ! 0)"
    unfolding feb_calendar_def by (simp add: feb_2024_tradeDate feb_markers_def)
  have o0: "is_open (feb_markers ! 0) = 0 \<or> is_open (feb_markers ! 0) = 1"
    by (simp add: feb_markers_def)
  have m0: "feb_calendar ! 0 \<in> set (transformToCalendarDates no_skip ''SSE'' (\<lambda>d. []) feb_markers 2024 2)"
    unfolding feb_calendar_def by (rule feb_2024_mem) simp
  have w0: "\<not> isWeekend (feb_calendar ! 0)"
    unfolding feb_calendar_def by (simp add: feb_2024_weekend)
  have a: "isTrading (feb_calendar ! 0) \<longleftrightarrow> \<not> (isHoliday (feb_calendar ! 0) \<or> isWeekend (feb_calendar ! 0))"
    using marked_day_exclusive [OF m0 f0 o0] w0 by simp
  have f2: "find (\<lambda>item. cal_date item = tradeDate (saturday_calendar ! 2)) (rev saturday_open)
      = Some (saturday_open ! 0)"
    unfolding saturday_calendar_def by (simp add: feb_2024_tradeDate saturday_open_def)
  have o2: "is_open (saturday_open ! 0) = 0 \<or> is_open (saturday_open ! 0) = 1"
    by (simp add: saturday_open_def)
  have m2: "saturday_calendar ! 2 \<in> set (transformToCalendarDates no_skip ''SSE'' (\<lambda>d. []) saturday_open 2024 2)"
    unfolding saturday_calendar_def by (rule feb_2024_mem) simp
  have w2: "isWeekend (saturday_calendar ! 2)"
    unfolding saturday_calendar_def by (simp add: feb_2024_weekend)
  have b: "isTrading (saturday_calendar ! 2) \<and> isWeekend (saturday_calendar ! 2)
      \<and> \<not> isHoliday (saturday_calendar ! 2)"
    using marked_day_exclusive [OF m2 f2 o2] w2 by (simp add: saturday_open_def)
  from a b show ?thesis by simp
qed

text \<open>
  Saturday 3 February 2024 with a marker that says open: the day has a marker, and both
  \<open>isTrading\<close> and \<open>isWeekend\<close> are true.
\<close>

theorem open_weekend_marker_counterexample:
  "tradeMap saturday_open (tradeDate (saturday_calendar ! 2)) = Some (saturday_open ! 0)
   \<and> isTrading (saturday_calendar ! 2) \<and> isWeekend (saturday_calendar ! 2)"
proof -
  have td: "tradeDate (saturday_calendar ! 2) = ''20240203''"
    unfolding saturday_calendar_def by (simp add: feb_2024_tradeDate)
  have m: "tradeMap saturday_open ''20240203'' = Some (saturday_open ! 0)"
    by (simp add: tradeMap_def saturday_open_def)
  have w: "isWeekend (saturday_calendar ! 2)"
    unfolding saturday_calendar_def by (simp add: feb_2024_weekend)
  have "month_length 2024 (2 - 1) = 29" by (simp add: month_length_def is_leap_def)
  then have "saturday_calendar ! 2 = calendarDate ''SSE'' (\<lambda>d. []) (tradeMap saturday_open)
       \<lparr>getFullYear = 2024, getMonth = 2 - 1, getDate = Suc 2\<rparr>"
    unfolding saturday_calendar_def by (simp add: nth_calendar)
  then have t: "isTrading (saturday_calendar ! 2)"
    using td m by (simp add: calendarDate_def Let_def tradeDate_calendarDate saturday_open_def)
  from td m w t show ?thesis by simp
qed

subsection \<open>The month cache\<close>

lemma nat_of_digits_append:
  "nat_of_digits (a @ b) = foldl (\<lambda>acc c. 10 * acc + (of_char c - 48)) (nat_of_digits a) b"
  by (simp add: nat_of_digits_def)

lemma digit_value: "n < 10 \<Longrightarrow> of_char (''0123456789'' ! n) - 48 = n"
proof -
  assume "n < 10"
  then have "n \<in> {0, 1, 2, 3, 4, 5, 6, 7, 8, 9}" by auto
  then show ?thesis by auto
qed

lemma digit_is_digit: "n < 10 \<Longrightarrow> is_digit (''0123456789'' ! n)"
  unfolding is_digit_def by (rule nth_mem) simp

lemma nat_of_digits_String_of: "nat_of_digits (String_of n) = n"
proof (induction n rule: String_of.induct)
  case (1 n)
  show ?case
  proof (cases "n < 10")
    case True
    then show ?thesis by (simp add: String_of.simps [of n] nat_of_digits_def digit_value)
  next
    case False
    with 1 have "nat_of_digits (String_of (n div 10)) = n div 10" by simp
    with False show ?thesis
      by (simp add: String_of.simps [of n] nat_of_digits_append digit_value)
  qed
qed

lemma String_of_digits: "list_all is_digit (String_of n)"
proof (induction n rule: String_of.induct)
  case (1 n)
  show ?case
  proof (cases "n < 10")
    case True
    then show ?thesis by (simp add: String_of.simps [of n] digit_is_digit)
  next
    case False
    with 1 have "list_all is_digit (String_of (n div 10))" by simp
    with False show ?thesis by (simp add: String_of.simps [of n] digit_is_digit)
  qed
qed


lemma no_dash_digits: "list_all is_digit s \<Longrightarrow> CHR ''-'' \<notin> set s"
proof
  assume a: "list_all is_digit s" and "CHR ''-'' \<in> set s"
  then have "is_digit (CHR ''-'')" by (simp add: list_all_iff)
  then show False by (simp add: is_digit_def)
qed

lemma nat_of_digits_zeros: "nat_of_digits (replicate k (CHR ''0'')) = 0"
  by (induction k) (simp_all add: nat_of_digits_def)

lemma nat_of_digits_padStart2: "nat_of_digits (padStart2 s) = nat_of_digits s"
  by (simp add: padStart2_def nat_of_digits_append nat_of_digits_zeros) (simp add: nat_of_digits_def)

lemma padStart2_digits: "list_all is_digit s \<Longrightarrow> list_all is_digit (padStart2 s)"
proof -
  have "is_digit (CHR ''0'')" by (simp add: is_digit_def)
  then have "list_all is_digit (replicate k (CHR ''0''))" for k by (induction k) simp_all
  then show "list_all is_digit s \<Longrightarrow> list_all is_digit (padStart2 s)"
    by (simp add: padStart2_def)
qed


lemma split_at_dash:
  "CHR ''-'' \<notin> set xs \<Longrightarrow> CHR ''-'' \<notin> set ys \<Longrightarrow> xs @ CHR ''-'' # r = ys @ CHR ''-'' # r'
   \<Longrightarrow> xs = ys \<and> r = r'"
proof (induction xs arbitrary: ys)
  case Nil
  then show ?case by (cases ys) auto
next
  case (Cons x xs)
  then show ?case by (cases ys) auto
qed

lemma getMonthKey_inj:
  assumes "getMonthKey y m e = getMonthKey y' m' e'"
  shows "y = y' \<and> m = m' \<and> e = e'"
proof -
  let ?p = "\<lambda>m. padStart2 (String_of m)"
  from assms have eq: "String_of y @ CHR ''-'' # (?p m @ CHR ''-'' # e)
      = String_of y' @ CHR ''-'' # (?p m' @ CHR ''-'' # e')"
    by (simp add: getMonthKey_def)
  have "CHR ''-'' \<notin> set (String_of y)" "CHR ''-'' \<notin> set (String_of y')"
    by (simp_all add: no_dash_digits String_of_digits)
  from split_at_dash [OF this eq]
  have sy: "String_of y = String_of y'" and rest: "?p m @ CHR ''-'' # e = ?p m' @ CHR ''-'' # e'"
    by simp_all
  have "CHR ''-'' \<notin> set (?p m)" "CHR ''-'' \<notin> set (?p m')"
    by (simp_all add: no_dash_digits padStart2_digits String_of_digits)
  from split_at_dash [OF this rest] have pm: "?p m = ?p m'" and e: "e = e'" by simp_all
  from sy have "nat_of_digits (String_of y) = nat_of_digits (String_of y')" by simp
  then have y: "y = y'" by (simp add: nat_of_digits_String_of)
  from pm have "nat_of_digits (?p m) = nat_of_digits (?p m')" by simp
  then have m: "m = m'" by (simp add: nat_of_digits_padStart2 nat_of_digits_String_of)
  from y m e show ?thesis by simp
qed


lemma cache_hit:
  "\<not> forceRefresh \<Longrightarrow> seen_calendarData cb (getMonthKey year month ex) = Some entry
   \<Longrightarrow> fetchMonthCalendar fetch zone toISODate now cb st year month ex forceRefresh
       = (Inr entry, st, [])"
  by (simp add: fetchMonthCalendar_def Let_def)

lemma miss_shape:
  assumes "forceRefresh \<or> seen_calendarData cb (getMonthKey year month ex) = None"
  shows "fetchMonthCalendar fetch zone toISODate now cb st year month ex forceRefresh =
     (let url = calendar_url ex (formatDateToString (Date_new zone year (int month - 1) 1))
                  (formatDateToString (Date_new zone year (int month) 0))
      in case fetch url of
           Rejected m \<Rightarrow> (Inl (NetworkError m), st\<lparr>loading := False, error := Some (NetworkError m)\<rparr>, [Fetched url])
         | NotOk status \<Rightarrow> (Inl (HttpError status), st\<lparr>loading := False, error := Some (HttpError status)\<rparr>, [Fetched url])
         | Body success apiData \<Rightarrow>
             if \<not> success then (Inl ApiFailure, st\<lparr>loading := False, error := Some ApiFailure\<rparr>, [Fetched url])
             else
               (let ds = transformToCalendarDates zone (seen_exchange cb) toISODate apiData year month;
                    monthData = \<lparr>mc_year = year, mc_month = month, dates = ds,
                                 tradingDays = length (filter isTrading ds), lastUpdate = now\<rparr>
                in (Inr monthData,
                    st\<lparr>calendarData := (calendarData st)(getMonthKey year month ex \<mapsto> monthData),
                       loading := False, error := None\<rparr>,
                    [Fetched url, Generated ds])))"
  using assms
  by (auto simp: fetchMonthCalendar_def Let_def split: option.splits fetch_outcome.splits)

lemma success_shape:
  assumes "fetchMonthCalendar fetch zone toISODate now (render st) st year month ex forceRefresh
      = (Inr entry, st', es)"
  shows "calendarData st' (getMonthKey year month ex) = Some entry"
  using assms
  by (auto simp: fetchMonthCalendar_def Let_def render_def
      split: option.splits fetch_outcome.splits if_splits)

lemma generations_simps:
  "generations [] = 0" "generations [Fetched u] = 0" "generations [Fetched u, Generated ds] = 1"
  "fetches [] = 0" "fetches [Fetched u] = 1" "fetches [Fetched u, Generated ds] = 1"
  by (simp_all add: generations_def fetches_def)

lemma forced_fetches_once:
  "fetches (snd (snd (fetchMonthCalendar fetch zone toISODate now cb st year month ex True))) = 1"
  by (simp add: miss_shape Let_def generations_simps split: fetch_outcome.splits)

lemma first_call_effects:
  assumes "fetchMonthCalendar fetch zone toISODate now cb st year month ex False = (Inr entry, st1, es1)"
    and "seen_calendarData cb (getMonthKey year month ex) = None"
  shows "generations es1 = 1 \<and> fetches es1 = 1"
  using assms
  by (auto simp: miss_shape Let_def generations_simps split: fetch_outcome.splits if_splits)

lemma any_call_effects:
  "generations (snd (snd (fetchMonthCalendar fetch zone toISODate now cb st year month ex force))) \<le> 1"
  by (cases "force \<or> seen_calendarData cb (getMonthKey year month ex) = None")
     (auto simp: miss_shape cache_hit Let_def generations_simps split: fetch_outcome.splits)

lemma other_keys_kept:
  "k \<noteq> getMonthKey year month ex \<Longrightarrow>
   calendarData (fst (snd (fetchMonthCalendar fetch zone toISODate now cb st year month ex force))) k
     = calendarData st k"
  by (cases "force \<or> seen_calendarData cb (getMonthKey year month ex) = None")
     (auto simp: miss_shape cache_hit Let_def split: fetch_outcome.splits)

text \<open>
  C3, as the code has it. For every key (exchange, year, month), callback and state:
  a non-forced call whose callback finds an entry for the key in the cache it captured
  returns that entry, leaves the state as it is and has no effect (no request, no
  generation). A call that is forced, or whose callback finds no entry, sends one request;
  when the source answers with data, the call runs the generator on that answer, returns
  the entry made of the generated days and stores it under the key in place of whatever
  was there. When a non-forced call through the callback of the current render returns
  an entry, a non-forced call through the callback of the render that follows returns
  the identical entry with no effect, whatever the source, the zone and the clock are by
  then; the two calls together run the generator at most once, and exactly once (after
  exactly one request) when the key was not cached before. A forced call always sends
  exactly one request. No call changes the entry of another key, and different triples
  of year, month and exchange have different keys.
\<close>

theorem month_cache:
  "(\<forall>entry. \<not> forceRefresh \<and> seen_calendarData cb (getMonthKey year month ex) = Some entry
       \<longrightarrow> fetchMonthCalendar fetch zone toISODate now cb st year month ex forceRefresh
           = (Inr entry, st, []))
   \<and> (\<forall>apiData.
        (forceRefresh \<or> seen_calendarData cb (getMonthKey year month ex) = None)
        \<and> fetch (calendar_url ex (formatDateToString (Date_new zone year (int month - 1) 1))
                   (formatDateToString (Date_new zone year (int month) 0))) = Body True apiData
        \<longrightarrow> fetchMonthCalendar fetch zone toISODate now cb st year month ex forceRefresh =
              (Inr \<lparr>mc_year = year, mc_month = month,
                    dates = transformToCalendarDates zone (seen_exchange cb) toISODate apiData
                              year month,
                    tradingDays = length (filter isTrading
                       (transformToCalendarDates zone (seen_exchange cb) toISODate apiData
                          year month)),
                    lastUpdate = now\<rparr>,
               st\<lparr>calendarData := (calendarData st)(getMonthKey year month ex \<mapsto>
                     \<lparr>mc_year = year, mc_month = month,
                      dates = transformToCalendarDates zone (seen_exchange cb) toISODate apiData
                                year month,
                      tradingDays = length (filter isTrading
                         (transformToCalendarDates zone (seen_exchange cb) toISODate apiData
                            year month)),
                      lastUpdate = now\<rparr>),
                  loading := False, error := None\<rparr>,
               [Fetched (calendar_url ex (formatDateToString (Date_new zone year (int month - 1) 1))
                           (formatDateToString (Date_new zone year (int month) 0))),
                Generated (transformToCalendarDates zone (seen_exchange cb) toISODate apiData
                             year month)]))
   \<and> (\<forall>entry st1 es1.
        fetchMonthCalendar fetch zone toISODate now (render st) st year month ex False
          = (Inr entry, st1, es1)
        \<longrightarrow> fetchMonthCalendar fetch2 zone2 toISODate2 now2 (render st1) st1 year month ex False
              = (Inr entry, st1, [])
          \<and> generations es1 \<le> 1
          \<and> (calendarData st (getMonthKey year month ex) = None
               \<longrightarrow> generations es1 = 1 \<and> fetches es1 = 1))
   \<and> fetches (snd (snd (fetchMonthCalendar fetch zone toISODate now cb st year month ex True))) = 1
   \<and> (\<forall>k. k \<noteq> getMonthKey year month ex \<longrightarrow>
        calendarData (fst (snd (fetchMonthCalendar fetch zone toISODate now cb st year month ex
                                  forceRefresh))) k
          = calendarData st k)
   \<and> (\<forall>year' month' ex'.
        getMonthKey year month ex = getMonthKey year' month' ex'
        \<longrightarrow> year = year' \<and> month = month' \<and> ex = ex')"
proof (intro conjI allI impI)
  fix entry
  assume "\<not> forceRefresh \<and> seen_calendarData cb (getMonthKey year month ex) = Some entry"
  then show "fetchMonthCalendar fetch zone toISODate now cb st year month ex forceRefresh
      = (Inr entry, st, [])"
    by (simp add: cache_hit)
next
  fix apiData
  assume "(forceRefresh \<or> seen_calendarData cb (getMonthKey year month ex) = None)
        \<and> fetch (calendar_url ex (formatDateToString (Date_new zone year (int month - 1) 1))
                   (formatDateToString (Date_new zone year (int month) 0))) = Body True apiData"
  then show "fetchMonthCalendar fetch zone toISODate now cb st year month ex forceRefresh =
              (Inr \<lparr>mc_year = year, mc_month = month,
                    dates = transformToCalendarDates zone (seen_exchange cb) toISODate apiData
                              year month,
                    tradingDays = length (filter isTrading
                       (transformToCalendarDates zone (seen_exchange cb) toISODate apiData
                          year month)),
                    lastUpdate = now\<rparr>,
               st\<lparr>calendarData := (calendarData st)(getMonthKey year month ex \<mapsto>
                     \<lparr>mc_year = year, mc_month = month,
                      dates = transformToCalendarDates zone (seen_exchange cb) toISODate apiData
                                year month,
                      tradingDays = length (filter isTrading
                         (transformToCalendarDates zone (seen_exchange cb) toISODate apiData
                            year month)),
                      lastUpdate = now\<rparr>),
                  loading := False, error := None\<rparr>,
               [Fetched (calendar_url ex (formatDateToString (Date_new zone year (int month - 1) 1))
                           (formatDateToString (Date_new zone year (int month) 0))),
                Generated (transformToCalendarDates zone (seen_exchange cb) toISODate apiData
                             year month)])"
    by (simp add: miss_shape Let_def)
next
  fix entry st1 es1
  assume first: "fetchMonthCalendar fetch zone toISODate now (render st) st year month ex False
      = (Inr entry, st1, es1)"
  then have "calendarData st1 (getMonthKey year month ex) = Some entry" by (rule success_shape)
  then have "seen_calendarData (render st1) (getMonthKey year month ex) = Some entry"
    by (simp add: render_def)
  then show "fetchMonthCalendar fetch2 zone2 toISODate2 now2 (render st1) st1 year month ex False
      = (Inr entry, st1, [])"
    by (simp add: cache_hit)
  from any_call_effects [of fetch zone toISODate now "render st" st year month ex False] first
  show "generations es1 \<le> 1" by simp
  {
    assume "calendarData st (getMonthKey year month ex) = None"
    then have "seen_calendarData (render st) (getMonthKey year month ex) = None"
      by (simp add: render_def)
    with first have g: "generations es1 = 1 \<and> fetches es1 = 1" by (rule first_call_effects)
    from g show "generations es1 = 1" by simp
    from g show "fetches es1 = 1" by simp
  }
next
  show "fetches (snd (snd (fetchMonthCalendar fetch zone toISODate now cb st year month ex True))) = 1"
    by (rule forced_fetches_once)
next
  fix k assume "k \<noteq> getMonthKey year month ex"
  then show "calendarData (fst (snd (fetchMonthCalendar fetch zone toISODate now cb st year month ex
                                  forceRefresh))) k = calendarData st k"
    by (rule other_keys_kept)
next
  fix year' month' ex'
  assume k: "getMonthKey year month ex = getMonthKey year' month' ex'"
  from getMonthKey_inj [OF k] show "year = year'" by simp
  from getMonthKey_inj [OF k] show "month = month'" by simp
  from getMonthKey_inj [OF k] show "ex = ex'" by simp
qed


text \<open>February 2024 on a fresh hook: the first call, the call through the callback of
  the next render while the source is down, and the forced call.\<close>

theorem month_cache_witness:
  "fst second_call = fst first_call
   \<and> snd (snd second_call) = []
   \<and> generations (snd (snd first_call) @ snd (snd second_call)) = 1
   \<and> fetches (snd (snd forced_call)) = 1
   \<and> map_sum id dates (fst first_call) = Inr feb_calendar
   \<and> map_sum id lastUpdate (fst first_call) = Inr ''t1''
   \<and> map_sum id lastUpdate (fst forced_call) = Inr ''t3''
   \<and> map_option lastUpdate (calendarData (fst (snd forced_call)) (getMonthKey 2024 2 ''SSE''))
       = Some ''t3''"
proof -
  let ?e1 = "\<lparr>mc_year = 2024, mc_month = 2, dates = feb_calendar,
      tradingDays = length (filter isTrading feb_calendar), lastUpdate = ''t1''\<rparr>"
  let ?e3 = "\<lparr>mc_year = 2024, mc_month = 2, dates = feb_calendar,
      tradingDays = length (filter isTrading feb_calendar), lastUpdate = ''t3''\<rparr>"
  let ?s1 = "initial_state\<lparr>calendarData := (calendarData initial_state)(getMonthKey 2024 2 ''SSE'' \<mapsto> ?e1),
      loading := False, error := None\<rparr>"
  let ?s3 = "?s1\<lparr>calendarData := (calendarData ?s1)(getMonthKey 2024 2 ''SSE'' \<mapsto> ?e3),
      loading := False, error := None\<rparr>"
  let ?url = "calendar_url ''SSE'' (formatDateToString (Date_new no_skip 2024 (int 2 - 1) 1))
      (formatDateToString (Date_new no_skip 2024 (int 2) 0))"
  have absent: "calendarData initial_state (getMonthKey 2024 2 ''SSE'') = None"
    by (simp add: initial_state_def)
  have src: "feb_source ?url = Body True feb_markers" by (simp add: feb_source_def)
  have ex0: "seen_exchange (render initial_state) = ''SSE''"
    by (simp add: render_def initial_state_def)
  have ex1: "seen_exchange (render ?s1) = ''SSE''"
    by (simp add: render_def initial_state_def)
  note thm1 = month_cache [where forceRefresh = False and cb = "render initial_state"
      and st = initial_state and year = 2024 and month = 2 and ex = "''SSE''"
      and fetch = feb_source and zone = no_skip and toISODate = "\<lambda>d. []" and now = "''t1''"
      and ?fetch2.0 = down_source and ?zone2.0 = no_skip and ?toISODate2.0 = "\<lambda>d. []"
      and ?now2.0 = "''t2''"]
  from absent have miss: "False \<or> seen_calendarData (render initial_state) (getMonthKey 2024 2 ''SSE'') = None"
    by (simp add: render_def)
  from thm1 [THEN conjunct2, THEN conjunct1, rule_format, of feb_markers] miss src
  have first: "fetchMonthCalendar feb_source no_skip (\<lambda>d. []) ''t1'' (render initial_state)
      initial_state 2024 2 ''SSE'' False = (Inr ?e1, ?s1, [Fetched ?url, Generated feb_calendar])"
    unfolding ex0 feb_calendar_def [symmetric] by simp
  from thm1 [THEN conjunct2, THEN conjunct2, THEN conjunct1, rule_format, OF first]
  have second: "fetchMonthCalendar down_source no_skip (\<lambda>d. []) ''t2'' (render ?s1) ?s1
      2024 2 ''SSE'' False = (Inr ?e1, ?s1, [])"
    and gen: "generations [Fetched ?url, Generated feb_calendar] = 1"
    using absent by simp_all
  have fc: "first_call = (Inr ?e1, ?s1, [Fetched ?url, Generated feb_calendar])"
    unfolding first_call_def by (rule first)
  have sc: "second_call = (Inr ?e1, ?s1, [])"
    unfolding second_call_def fc using second by simp
  note thm2 = month_cache [where forceRefresh = True and cb = "render ?s1"
      and st = ?s1 and year = 2024 and month = 2 and ex = "''SSE''"
      and fetch = feb_source and zone = no_skip and toISODate = "\<lambda>d. []" and now = "''t3''"
      and ?fetch2.0 = down_source and ?zone2.0 = no_skip and ?toISODate2.0 = "\<lambda>d. []"
      and ?now2.0 = "''t2''"]
  from thm2 [THEN conjunct2, THEN conjunct1, rule_format, of feb_markers] src
  have forced: "fetchMonthCalendar feb_source no_skip (\<lambda>d. []) ''t3'' (render ?s1) ?s1
      2024 2 ''SSE'' True = (Inr ?e3, ?s3, [Fetched ?url, Generated feb_calendar])"
    unfolding ex1 feb_calendar_def [symmetric] by simp
  from thm2 [THEN conjunct2, THEN conjunct2, THEN conjunct2, THEN conjunct1]
  have f1: "fetches (snd (snd (fetchMonthCalendar feb_source no_skip (\<lambda>d. []) ''t3'' (render ?s1) ?s1
      2024 2 ''SSE'' True))) = 1" .
  have fo: "forced_call = (Inr ?e3, ?s3, [Fetched ?url, Generated feb_calendar])"
    unfolding forced_call_def fc using forced by simp
  have a: "fst second_call = fst first_call" by (simp add: fc sc)
  have b: "snd (snd second_call) = []" by (simp add: sc)
  have c: "generations (snd (snd first_call) @ snd (snd second_call)) = 1"
    using gen by (simp add: fc sc)
  have d: "fetches (snd (snd forced_call)) = 1"
    using f1 unfolding forced_call_def fc by simp
  have e: "map_sum id dates (fst first_call) = Inr feb_calendar" by (simp add: fc)
  have f: "map_sum id lastUpdate (fst first_call) = Inr ''t1''" by (simp add: fc)
  have g: "map_sum id lastUpdate (fst forced_call) = Inr ''t3''" by (simp add: fo)
  have h: "map_option lastUpdate (calendarData (fst (snd forced_call)) (getMonthKey 2024 2 ''SSE''))
      = Some ''t3''"
    by (simp add: fo)
  from a b c d e f g h show ?thesis by simp
qed

text \<open>
  Two successive non-forced calls for the same key through one and the same callback,
  the second made after the first has stored its entry: the callback still reads the
  cache it captured, so the second call sends a request and runs the generator again, and
  the entry it returns (stamped \<open>t2\<close>) is not the entry of the first call (stamped
  \<open>t1\<close>). Two generations, two requests.
\<close>

theorem same_callback_counterexample:
  "map_sum id lastUpdate (fst first_call) = Inr ''t1''
   \<and> map_sum id lastUpdate (fst same_callback_call) = Inr ''t2''
   \<and> fst same_callback_call \<noteq> fst first_call
   \<and> generations (snd (snd first_call) @ snd (snd same_callback_call)) = 2
   \<and> fetches (snd (snd first_call) @ snd (snd same_callback_call)) = 2"
proof -
  let ?e1 = "\<lparr>mc_year = 2024, mc_month = 2, dates = feb_calendar,
      tradingDays = length (filter isTrading feb_calendar), lastUpdate = ''t1''\<rparr>"
  let ?e2 = "\<lparr>mc_year = 2024, mc_month = 2, dates = feb_calendar,
      tradingDays = length (filter isTrading feb_calendar), lastUpdate = ''t2''\<rparr>"
  let ?url = "calendar_url ''SSE'' (formatDateToString (Date_new no_skip 2024 (int 2 - 1) 1))
      (formatDateToString (Date_new no_skip 2024 (int 2) 0))"
  have miss: "seen_calendarData (render initial_state) (getMonthKey 2024 2 ''SSE'') = None"
    by (simp add: render_def initial_state_def)
  have ex0: "seen_exchange (render initial_state) = ''SSE''"
    by (simp add: render_def initial_state_def)
  have fc: "fst first_call = Inr ?e1 \<and> snd (snd first_call) = [Fetched ?url, Generated feb_calendar]"
    unfolding first_call_def
    by (simp add: miss_shape miss Let_def feb_source_def ex0 feb_calendar_def)
  have sc: "fst same_callback_call = Inr ?e2
      \<and> snd (snd same_callback_call) = [Fetched ?url, Generated feb_calendar]"
    unfolding same_callback_call_def
    by (simp add: miss_shape miss Let_def feb_source_def ex0 feb_calendar_def)
  from fc sc show ?thesis by (simp add: generations_def fetches_def)
qed

subsection \<open>Statistics of a batch\<close>








subsection \<open>The merge\<close>

lemma overlay_lookup_snoc:
  "overlay_lookup (rows @ [r]) = (overlay_lookup rows)(RecordKeyer_key (ov_code r) (ov_tradeDate r) \<mapsto> r)"
  by (simp add: overlay_lookup_def)

lemma overlay_lookup_Nil: "overlay_lookup [] = Map.empty"
  by (simp add: overlay_lookup_def)

lemma overlay_lookup_filter:
  "k \<in> K \<Longrightarrow>
   overlay_lookup (filter (\<lambda>ov. RecordKeyer_key (ov_code ov) (ov_tradeDate ov) \<in> K) rows) k
     = overlay_lookup rows k"
  by (induction rows rule: rev_induct) (auto simp: overlay_lookup_snoc overlay_lookup_Nil)

lemma overlay_fields_matching:
  "r \<in> set rosterRows \<Longrightarrow>
   overlay_fields (map_option (matching_rows onDate rosterRows) overlay)
       (RecordKeyer_key (rr_code r) onDate)
     = overlay_fields overlay (RecordKeyer_key (rr_code r) onDate)"
  by (cases overlay) (simp_all add: overlay_fields_def matching_rows_def overlay_lookup_filter)

text \<open>
  C1. For every roster and both overlays, present or absent: the merge returns exactly
  one record per roster row, in roster order (the codes and the roster fields of the
  output are those of the roster rows, one by one). Overlay rows whose key is the key of
  no roster row are ignored: dropping them from the overlays leaves the output as it is,
  so they add no record. An absent overlay leaves its fields absent in every record.
\<close>

theorem merge_follows_roster:
  "length (RecordMerger_merge onDate rosterRows quoteRows indicatorRows) = length rosterRows
   \<and> map ir_code (RecordMerger_merge onDate rosterRows quoteRows indicatorRows)
       = map rr_code rosterRows
   \<and> map ir_roster (RecordMerger_merge onDate rosterRows quoteRows indicatorRows)
       = map rr_fields rosterRows
   \<and> RecordMerger_merge onDate rosterRows
        (map_option (matching_rows onDate rosterRows) quoteRows)
        (map_option (matching_rows onDate rosterRows) indicatorRows)
       = RecordMerger_merge onDate rosterRows quoteRows indicatorRows
   \<and> map ir_quote (RecordMerger_merge onDate rosterRows None indicatorRows)
       = replicate (length rosterRows) None
   \<and> map ir_indicators (RecordMerger_merge onDate rosterRows quoteRows None)
       = replicate (length rosterRows) None"
proof -
  have ign: "RecordMerger_merge onDate rosterRows
        (map_option (matching_rows onDate rosterRows) quoteRows)
        (map_option (matching_rows onDate rosterRows) indicatorRows)
       = RecordMerger_merge onDate rosterRows quoteRows indicatorRows"
    by (simp add: RecordMerger_merge_def overlay_fields_matching)
  have nq: "map ir_quote (RecordMerger_merge onDate rosterRows None indicatorRows)
       = replicate (length rosterRows) None"
    by (simp add: RecordMerger_merge_def o_def overlay_fields_def map_replicate_const)
  have ni: "map ir_indicators (RecordMerger_merge onDate rosterRows quoteRows None)
       = replicate (length rosterRows) None"
    by (simp add: RecordMerger_merge_def o_def overlay_fields_def map_replicate_const)
  show ?thesis
    unfolding ign nq ni by (simp add: RecordMerger_merge_def o_def)
qed

subsection \<open>The handlers\<close>



















lemma matches_date_sample: "matches_date ''20240102''"
  by (simp add: matches_date_def is_digit_def)




lemma api_name_requests:
  "api_name (daily_request tok p) = ''daily''"
  "api_name (daily_basic_request tok p) = ''daily_basic''"
  "api_name (stock_basic_request tok p) = ''stock_basic''"
  by (simp_all add: daily_request_def daily_basic_request_def stock_basic_request_def)

lemma roster_rows:
  "transformResponse roster_reply = [[(''ts_code'', JStr ''600000.SH''), (''name'', JStr ''A'')]]"
  by (simp add: roster_reply_def transformResponse_def zip_row_def assign_prop_def item_at_def)

lemma indicator_rows:
  "transformResponse indicator_reply
     = [[(''ts_code'', JStr ''600000.SH''), (''trade_date'', JStr ''20240102''), (''pe'', JNum 12)]]"
  by (simp add: indicator_reply_def transformResponse_def zip_row_def assign_prop_def item_at_def)

lemma roster_only_fails:
  "api_name req \<noteq> ''stock_basic'' \<Longrightarrow> call (upstream roster_only_host) req = Inl (NetworkError ''fetch failed'')"
  by (simp add: roster_only_host_def call_def)

lemma roster_only_rows:
  "fetch_rows (upstream roster_only_host) (stock_basic_request tok p)
     = Inr [[(''ts_code'', JStr ''600000.SH''), (''name'', JStr ''A'')]]"
  by (simp add: fetch_rows_def call_def roster_only_host_def api_name_requests roster_rows)
     (simp add: roster_reply_def)

lemma quote_down_rows:
  "fetch_rows (upstream quote_down_host) (stock_basic_request tok p)
     = Inr [[(''ts_code'', JStr ''600000.SH''), (''name'', JStr ''A'')]]"
  "fetch_rows (upstream quote_down_host) (daily_basic_request tok p)
     = Inr [[(''ts_code'', JStr ''600000.SH''), (''trade_date'', JStr ''20240102''), (''pe'', JNum 12)]]"
  "call (upstream quote_down_host) (daily_request tok p) = Inl (NetworkError ''fetch failed'')"
  by (simp_all add: fetch_rows_def call_def quote_down_host_def api_name_requests roster_rows
      indicator_rows)
     (simp_all add: roster_reply_def indicator_reply_def)

lemma step_1_sample:
  assumes "q_market q = None" "matches_date (trade_date_of sample_imports q)"
    and "TUSHARE_TOKEN h = Some ''secret''"
    and "\<And>p. fetch_rows (upstream h) (stock_basic_request ''secret'' p)
           = Inr [[(''ts_code'', JStr ''600000.SH''), (''name'', JStr ''A'')]]"
  shows "step_1 sample_imports h q =
     (Inr (''secret'', [[(''ts_code'', JStr ''600000.SH''), (''name'', JStr ''A'')]]),
      [stock_basic_request ''secret''
         [(''list_status'', list_status_of q), (''fields'', ''ts_code,name'')]])"
proof -
  have cl: "new_TushareClient (TUSHARE_TOKEN h) = Inr ''secret''"
    by (simp add: new_TushareClient_def assms(3) or_default_def)
  have f: "FIELDS_STOCK_BASIC sample_imports = ''ts_code,name''"
    by (simp add: sample_imports_def)
  show ?thesis
    using assms(1,2)
    by (simp add: step_1_def truthy_def dateFormat_def cl f assms(4) stockBasicParams_def)
qed

lemma steps_requests:
  "snd (steps_2_to_5 imp h q tok rows) =
     (if q_include_market_data q = Some ''true''
      then [daily_request tok [(''trade_date'', trade_date_of imp q), (''fields'', FIELDS_DAILY imp)]]
      else [])
     @ (if q_include_basic_indicators q = Some ''true''
        then [daily_basic_request tok
                [(''trade_date'', trade_date_of imp q), (''fields'', FIELDS_DAILY_BASIC imp)]]
        else [])"
  by (simp add: steps_2_to_5_def Let_def)



lemma step_1_ignores_overlay_flags:
  "step_1 imp h (q\<lparr>q_include_market_data := x\<rparr>) = step_1 imp h q"
  "step_1 imp h (q\<lparr>q_include_basic_indicators := y\<rparr>) = step_1 imp h q"
  by (simp_all add: step_1_def trade_date_of_def list_status_of_def stockBasicParams_def
      cong: sum.case_cong)

lemma steps_data:
  "resp_data (fst (steps_2_to_5 imp h q tok rows)) =
     batchMergeStockData imp (apply_limit (q_limit q) rows)
       (overlay_map imp (q_include_market_data q = Some ''true'')
          (fetch_rows (upstream h)
             (daily_request tok [(''trade_date'', trade_date_of imp q), (''fields'', FIELDS_DAILY imp)])))
       (overlay_map imp (q_include_basic_indicators q = Some ''true'')
          (fetch_rows (upstream h)
             (daily_basic_request tok
                [(''trade_date'', trade_date_of imp q), (''fields'', FIELDS_DAILY_BASIC imp)])))"
  by (simp add: steps_2_to_5_def Let_def)

lemma steps_total:
  "resp_total (fst (steps_2_to_5 imp h q tok rows))
     = length (resp_data (fst (steps_2_to_5 imp h q tok rows)))"
  by (simp add: steps_2_to_5_def Let_def)

lemma failed_overlay_absent:
  "isl (call up req) \<Longrightarrow> overlay_map imp requested (fetch_rows up req) = None"
  by (cases "call up req") (simp_all add: overlay_map_def fetch_rows_def)

lemma overlay_not_requested: "overlay_map imp False fetched = None"
  by (simp add: overlay_map_def)

lemma overlay_map_spelled:
  "overlay_map imp requested fetched =
     (if requested
      then (case fetched of
              Inl e \<Rightarrow> None
            | Inr rows \<Rightarrow> if rows = [] then None else Some (createDataMap imp rows))
      else None)"
  by (simp add: overlay_map_def split: sum.splits)

lemma trade_date_of_flags:
  "trade_date_of imp (q\<lparr>q_include_market_data := x\<rparr>) = trade_date_of imp q"
  "trade_date_of imp (q\<lparr>q_include_basic_indicators := y\<rparr>) = trade_date_of imp q"
  by (simp_all add: trade_date_of_def)

lemma GET_success:
  assumes "fst (step_1 imp h q) = Inr (tok, rows)"
  shows "GET imp h q = (Inr (fst (steps_2_to_5 imp h q tok rows)),
                        snd (step_1 imp h q) @ snd (steps_2_to_5 imp h q tok rows))"
proof -
  obtain r reqs where s: "step_1 imp h q = (r, reqs)" by (cases "step_1 imp h q")
  with assms have "r = Inr (tok, rows)" by simp
  with s show ?thesis by (simp add: GET_def case_prod_beta)
qed

lemma steps_quote_failure:
  assumes req: "q_include_market_data q = Some ''true''"
    and fails: "isl (call (upstream h) (daily_request tok
                  [(''trade_date'', trade_date_of imp q), (''fields'', FIELDS_DAILY imp)]))"
  shows "resp_data (fst (steps_2_to_5 imp h (q\<lparr>q_include_market_data := None\<rparr>) tok rows))
           = resp_data (fst (steps_2_to_5 imp h q tok rows))"
    and "resp_total (fst (steps_2_to_5 imp h (q\<lparr>q_include_market_data := None\<rparr>) tok rows))
           = resp_total (fst (steps_2_to_5 imp h q tok rows))"
    and "resp_stats (fst (steps_2_to_5 imp h (q\<lparr>q_include_market_data := None\<rparr>) tok rows))
           = resp_stats (fst (steps_2_to_5 imp h q tok rows))"
proof -
  note absent = failed_overlay_absent [OF fails, of imp True]
  show "resp_data (fst (steps_2_to_5 imp h (q\<lparr>q_include_market_data := None\<rparr>) tok rows))
           = resp_data (fst (steps_2_to_5 imp h q tok rows))"
    by (simp add: steps_2_to_5_def Let_def req absent overlay_not_requested trade_date_of_flags)
  show "resp_total (fst (steps_2_to_5 imp h (q\<lparr>q_include_market_data := None\<rparr>) tok rows))
           = resp_total (fst (steps_2_to_5 imp h q tok rows))"
    by (simp add: steps_2_to_5_def Let_def req absent overlay_not_requested trade_date_of_flags)
  show "resp_stats (fst (steps_2_to_5 imp h (q\<lparr>q_include_market_data := None\<rparr>) tok rows))
           = resp_stats (fst (steps_2_to_5 imp h q tok rows))"
    by (simp add: steps_2_to_5_def Let_def req absent overlay_not_requested trade_date_of_flags)
qed

lemma steps_indicator_failure:
  assumes req: "q_include_basic_indicators q = Some ''true''"
    and fails: "isl (call (upstream h) (daily_basic_request tok
                  [(''trade_date'', trade_date_of imp q), (''fields'', FIELDS_DAILY_BASIC imp)]))"
  shows "resp_data (fst (steps_2_to_5 imp h (q\<lparr>q_include_basic_indicators := None\<rparr>) tok rows))
           = resp_data (fst (steps_2_to_5 imp h q tok rows))"
    and "resp_total (fst (steps_2_to_5 imp h (q\<lparr>q_include_basic_indicators := None\<rparr>) tok rows))
           = resp_total (fst (steps_2_to_5 imp h q tok rows))"
    and "resp_stats (fst (steps_2_to_5 imp h (q\<lparr>q_include_basic_indicators := None\<rparr>) tok rows))
           = resp_stats (fst (steps_2_to_5 imp h q tok rows))"
proof -
  note absent = failed_overlay_absent [OF fails, of imp True]
  show "resp_data (fst (steps_2_to_5 imp h (q\<lparr>q_include_basic_indicators := None\<rparr>) tok rows))
           = resp_data (fst (steps_2_to_5 imp h q tok rows))"
    by (simp add: steps_2_to_5_def Let_def req absent overlay_not_requested trade_date_of_flags)
  show "resp_total (fst (steps_2_to_5 imp h (q\<lparr>q_include_basic_indicators := None\<rparr>) tok rows))
           = resp_total (fst (steps_2_to_5 imp h q tok rows))"
    by (simp add: steps_2_to_5_def Let_def req absent overlay_not_requested trade_date_of_flags)
  show "resp_stats (fst (steps_2_to_5 imp h (q\<lparr>q_include_basic_indicators := None\<rparr>) tok rows))
           = resp_stats (fst (steps_2_to_5 imp h q tok rows))"
    by (simp add: steps_2_to_5_def Let_def req absent overlay_not_requested trade_date_of_flags)
qed

lemma quote_failure:
  assumes s1: "fst (step_1 imp h q) = Inr (tok, roster)"
    and req: "q_include_market_data q = Some ''true''"
    and fails: "isl (call (upstream h) (daily_request tok
                  [(''trade_date'', trade_date_of imp q), (''fields'', FIELDS_DAILY imp)]))"
  shows "\<exists>r. GET imp h q =
            (Inr r,
             snd (step_1 imp h q)
             @ [daily_request tok
                  [(''trade_date'', trade_date_of imp q), (''fields'', FIELDS_DAILY imp)]]
             @ (if q_include_basic_indicators q = Some ''true''
                then [daily_basic_request tok
                        [(''trade_date'', trade_date_of imp q),
                         (''fields'', FIELDS_DAILY_BASIC imp)]]
                else []))
          \<and> resp_data r =
              batchMergeStockData imp (apply_limit (q_limit q) roster) None
                (if q_include_basic_indicators q = Some ''true''
                 then (case fetch_rows (upstream h)
                              (daily_basic_request tok
                                 [(''trade_date'', trade_date_of imp q),
                                  (''fields'', FIELDS_DAILY_BASIC imp)]) of
                         Inl e \<Rightarrow> None
                       | Inr rows \<Rightarrow> if rows = [] then None else Some (createDataMap imp rows))
                 else None)
          \<and> resp_total r = length (resp_data r)
          \<and> (\<exists>r0. fst (GET imp h (q\<lparr>q_include_market_data := None\<rparr>)) = Inr r0
                 \<and> resp_data r0 = resp_data r \<and> resp_total r0 = resp_total r
                 \<and> resp_stats r0 = resp_stats r)"
proof -
  let ?r = "fst (steps_2_to_5 imp h q tok roster)"
  let ?base = "fst (steps_2_to_5 imp h (q\<lparr>q_include_market_data := None\<rparr>) tok roster)"
  have g: "GET imp h q = (Inr ?r, snd (step_1 imp h q) @ snd (steps_2_to_5 imp h q tok roster))"
    using s1 by (rule GET_success)
  have s0: "fst (step_1 imp h (q\<lparr>q_include_market_data := None\<rparr>)) = Inr (tok, roster)"
    using s1 by (simp add: step_1_ignores_overlay_flags)
  have g0: "fst (GET imp h (q\<lparr>q_include_market_data := None\<rparr>)) = Inr ?base"
    by (simp add: GET_success [OF s0])
  have reqs: "snd (steps_2_to_5 imp h q tok roster) =
      [daily_request tok [(''trade_date'', trade_date_of imp q), (''fields'', FIELDS_DAILY imp)]]
      @ (if q_include_basic_indicators q = Some ''true''
         then [daily_basic_request tok
                 [(''trade_date'', trade_date_of imp q), (''fields'', FIELDS_DAILY_BASIC imp)]]
         else [])"
    by (simp add: steps_requests req)
  have d: "resp_data ?r =
              batchMergeStockData imp (apply_limit (q_limit q) roster) None
                (if q_include_basic_indicators q = Some ''true''
                 then (case fetch_rows (upstream h)
                              (daily_basic_request tok
                                 [(''trade_date'', trade_date_of imp q),
                                  (''fields'', FIELDS_DAILY_BASIC imp)]) of
                         Inl e \<Rightarrow> None
                       | Inr rows \<Rightarrow> if rows = [] then None else Some (createDataMap imp rows))
                 else None)"
    unfolding steps_data failed_overlay_absent [OF fails] by (simp add: overlay_map_spelled)
  have same: "resp_data ?base = resp_data ?r \<and> resp_total ?base = resp_total ?r
      \<and> resp_stats ?base = resp_stats ?r"
    using steps_quote_failure [OF req fails, of roster] by simp
  show ?thesis
    using g reqs d steps_total [of imp h q tok roster] g0 same
    by (intro exI [of _ ?r] conjI exI [of _ ?base]) simp_all
qed

lemma indicator_failure:
  assumes s1: "fst (step_1 imp h q) = Inr (tok, roster)"
    and req: "q_include_basic_indicators q = Some ''true''"
    and fails: "isl (call (upstream h) (daily_basic_request tok
                  [(''trade_date'', trade_date_of imp q), (''fields'', FIELDS_DAILY_BASIC imp)]))"
  shows "\<exists>r. GET imp h q =
            (Inr r,
             snd (step_1 imp h q)
             @ (if q_include_market_data q = Some ''true''
                then [daily_request tok
                        [(''trade_date'', trade_date_of imp q), (''fields'', FIELDS_DAILY imp)]]
                else [])
             @ [daily_basic_request tok
                  [(''trade_date'', trade_date_of imp q), (''fields'', FIELDS_DAILY_BASIC imp)]])
          \<and> resp_data r =
              batchMergeStockData imp (apply_limit (q_limit q) roster)
                (if q_include_market_data q = Some ''true''
                 then (case fetch_rows (upstream h)
                              (daily_request tok
                                 [(''trade_date'', trade_date_of imp q),
                                  (''fields'', FIELDS_DAILY imp)]) of
                         Inl e \<Rightarrow> None
                       | Inr rows \<Rightarrow> if rows = [] then None else Some (createDataMap imp rows))
                 else None)
                None
          \<and> resp_total r = length (resp_data r)
          \<and> (\<exists>r0. fst (GET imp h (q\<lparr>q_include_basic_indicators := None\<rparr>)) = Inr r0
                 \<and> resp_data r0 = resp_data r \<and> resp_total r0 = resp_total r
                 \<and> resp_stats r0 = resp_stats r)"
proof -
  let ?r = "fst (steps_2_to_5 imp h q tok roster)"
  let ?base = "fst (steps_2_to_5 imp h (q\<lparr>q_include_basic_indicators := None\<rparr>) tok roster)"
  have g: "GET imp h q = (Inr ?r, snd (step_1 imp h q) @ snd (steps_2_to_5 imp h q tok roster))"
    using s1 by (rule GET_success)
  have s0: "fst (step_1 imp h (q\<lparr>q_include_basic_indicators := None\<rparr>)) = Inr (tok, roster)"
    using s1 by (simp add: step_1_ignores_overlay_flags)
  have g0: "fst (GET imp h (q\<lparr>q_include_basic_indicators := None\<rparr>)) = Inr ?base"
    by (simp add: GET_success [OF s0])
  have reqs: "snd (steps_2_to_5 imp h q tok roster) =
      (if q_include_market_data q = Some ''true''
       then [daily_request tok [(''trade_date'', trade_date_of imp q), (''fields'', FIELDS_DAILY imp)]]
       else [])
      @ [daily_basic_request tok
           [(''trade_date'', trade_date_of imp q), (''fields'', FIELDS_DAILY_BASIC imp)]]"
    by (simp add: steps_requests req)
  have d: "resp_data ?r =
              batchMergeStockData imp (apply_limit (q_limit q) roster)
                (if q_include_market_data q = Some ''true''
                 then (case fetch_rows (upstream h)
                              (daily_request tok
                                 [(''trade_date'', trade_date_of imp q),
                                  (''fields'', FIELDS_DAILY imp)]) of
                         Inl e \<Rightarrow> None
                       | Inr rows \<Rightarrow> if rows = [] then None else Some (createDataMap imp rows))
                 else None)
                None"
    unfolding steps_data failed_overlay_absent [OF fails] by (simp add: overlay_map_spelled)
  have same: "resp_data ?base = resp_data ?r \<and> resp_total ?base = resp_total ?r
      \<and> resp_stats ?base = resp_stats ?r"
    using steps_indicator_failure [OF req fails, of roster] by simp
  show ?thesis
    using g reqs d steps_total [of imp h q tok roster] g0 same
    by (intro exI [of _ ?r] conjI exI [of _ ?base]) simp_all
qed

text \<open>
  C2. Suppose step 1 (checks, client, roster) has succeeded, the quote overlay is
  requested, and the request that the handler sends for it fails (so the fetch throws).
  Then the handler completes. The requests sent are those of step 1, the failed quote
  request and, when the indicator overlay is requested, the indicator request. The merged
  records are what the merge returns for the limited roster with the quote map absent and
  the indicator map built from the rows of the indicator request (absent when that
  overlay is not requested, fails too or has no rows); the total is their number; and the
  request without the quote overlay completes with the same merged records, the same
  total and the same statistics. The same holds with the roles of the two overlays
  exchanged.
\<close>

theorem overlay_failure_isolated:
  "(\<forall>tok roster.
      fst (step_1 imp h q) = Inr (tok, roster)
      \<and> q_include_market_data q = Some ''true''
      \<and> isl (call (upstream h) (daily_request tok
               [(''trade_date'', trade_date_of imp q), (''fields'', FIELDS_DAILY imp)]))
      \<longrightarrow> (\<exists>r. GET imp h q =
                (Inr r,
                 snd (step_1 imp h q)
                 @ [daily_request tok
                      [(''trade_date'', trade_date_of imp q), (''fields'', FIELDS_DAILY imp)]]
                 @ (if q_include_basic_indicators q = Some ''true''
                    then [daily_basic_request tok
                            [(''trade_date'', trade_date_of imp q),
                             (''fields'', FIELDS_DAILY_BASIC imp)]]
                    else []))
              \<and> resp_data r =
                  batchMergeStockData imp (apply_limit (q_limit q) roster) None
                    (if q_include_basic_indicators q = Some ''true''
                     then (case fetch_rows (upstream h)
                                  (daily_basic_request tok
                                     [(''trade_date'', trade_date_of imp q),
                                      (''fields'', FIELDS_DAILY_BASIC imp)]) of
                             Inl e \<Rightarrow> None
                           | Inr rows \<Rightarrow>
                               if rows = [] then None else Some (createDataMap imp rows))
                     else None)
              \<and> resp_total r = length (resp_data r)
              \<and> (\<exists>r0. fst (GET imp h (q\<lparr>q_include_market_data := None\<rparr>)) = Inr r0
                     \<and> resp_data r0 = resp_data r \<and> resp_total r0 = resp_total r
                     \<and> resp_stats r0 = resp_stats r)))
   \<and> (\<forall>tok roster.
      fst (step_1 imp h q) = Inr (tok, roster)
      \<and> q_include_basic_indicators q = Some ''true''
      \<and> isl (call (upstream h) (daily_basic_request tok
               [(''trade_date'', trade_date_of imp q), (''fields'', FIELDS_DAILY_BASIC imp)]))
      \<longrightarrow> (\<exists>r. GET imp h q =
                (Inr r,
                 snd (step_1 imp h q)
                 @ (if q_include_market_data q = Some ''true''
                    then [daily_request tok
                            [(''trade_date'', trade_date_of imp q), (''fields'', FIELDS_DAILY imp)]]
                    else [])
                 @ [daily_basic_request tok
                      [(''trade_date'', trade_date_of imp q),
                       (''fields'', FIELDS_DAILY_BASIC imp)]])
              \<and> resp_data r =
                  batchMergeStockData imp (apply_limit (q_limit q) roster)
                    (if q_include_market_data q = Some ''true''
                     then (case fetch_rows (upstream h)
                                  (daily_request tok
                                     [(''trade_date'', trade_date_of imp q),
                                      (''fields'', FIELDS_DAILY imp)]) of
                             Inl e \<Rightarrow> None
                           | Inr rows \<Rightarrow>
                               if rows = [] then None else Some (createDataMap imp rows))
                     else None)
                    None
              \<and> resp_total r = length (resp_data r)
              \<and> (\<exists>r0. fst (GET imp h (q\<lparr>q_include_basic_indicators := None\<rparr>)) = Inr r0
                     \<and> resp_data r0 = resp_data r \<and> resp_total r0 = resp_total r
                     \<and> resp_stats r0 = resp_stats r)))"
proof (intro conjI allI impI)
  fix tok roster
  assume "fst (step_1 imp h q) = Inr (tok, roster)
      \<and> q_include_market_data q = Some ''true''
      \<and> isl (call (upstream h) (daily_request tok
               [(''trade_date'', trade_date_of imp q), (''fields'', FIELDS_DAILY imp)]))"
  then show "\<exists>r. GET imp h q =
                (Inr r,
                 snd (step_1 imp h q)
                 @ [daily_request tok
                      [(''trade_date'', trade_date_of imp q), (''fields'', FIELDS_DAILY imp)]]
                 @ (if q_include_basic_indicators q = Some ''true''
                    then [daily_basic_request tok
                            [(''trade_date'', trade_date_of imp q),
                             (''fields'', FIELDS_DAILY_BASIC imp)]]
                    else []))
              \<and> resp_data r =
                  batchMergeStockData imp (apply_limit (q_limit q) roster) None
                    (if q_include_basic_indicators q = Some ''true''
                     then (case fetch_rows (upstream h)
                                  (daily_basic_request tok
                                     [(''trade_date'', trade_date_of imp q),
                                      (''fields'', FIELDS_DAILY_BASIC imp)]) of
                             Inl e \<Rightarrow> None
                           | Inr rows \<Rightarrow>
                               if rows = [] then None else Some (createDataMap imp rows))
                     else None)
              \<and> resp_total r = length (resp_data r)
              \<and> (\<exists>r0. fst (GET imp h (q\<lparr>q_include_market_data := None\<rparr>)) = Inr r0
                     \<and> resp_data r0 = resp_data r \<and> resp_total r0 = resp_total r
                     \<and> resp_stats r0 = resp_stats r)"
    by (intro quote_failure) simp_all
next
  fix tok roster
  assume "fst (step_1 imp h q) = Inr (tok, roster)
      \<and> q_include_basic_indicators q = Some ''true''
      \<and> isl (call (upstream h) (daily_basic_request tok
               [(''trade_date'', trade_date_of imp q), (''fields'', FIELDS_DAILY_BASIC imp)]))"
  then show "\<exists>r. GET imp h q =
                (Inr r,
                 snd (step_1 imp h q)
                 @ (if q_include_market_data q = Some ''true''
                    then [daily_request tok
                            [(''trade_date'', trade_date_of imp q), (''fields'', FIELDS_DAILY imp)]]
                    else [])
                 @ [daily_basic_request tok
                      [(''trade_date'', trade_date_of imp q),
                       (''fields'', FIELDS_DAILY_BASIC imp)]])
              \<and> resp_data r =
                  batchMergeStockData imp (apply_limit (q_limit q) roster)
                    (if q_include_market_data q = Some ''true''
                     then (case fetch_rows (upstream h)
                                  (daily_request tok
                                     [(''trade_date'', trade_date_of imp q),
                                      (''fields'', FIELDS_DAILY imp)]) of
                             Inl e \<Rightarrow> None
                           | Inr rows \<Rightarrow>
                               if rows = [] then None else Some (createDataMap imp rows))
                     else None)
                    None
              \<and> resp_total r = length (resp_data r)
              \<and> (\<exists>r0. fst (GET imp h (q\<lparr>q_include_basic_indicators := None\<rparr>)) = Inr r0
                     \<and> resp_data r0 = resp_data r \<and> resp_total r0 = resp_total r
                     \<and> resp_stats r0 = resp_stats r)"
    by (intro indicator_failure) simp_all
qed


text \<open>
  The sample host on which only the quote request fails: the one record has no price and
  has the price/earnings ratio of its indicator row, and all three requests are sent. And
  the sample host on which both overlay requests fail: the record has neither.
\<close>

theorem overlay_failure_isolated_witness:
  "(\<exists>r. fst (GET sample_imports quote_down_host overlay_query) = Inr r
        \<and> map stock_id (resp_data r) = [''600000.SH'']
        \<and> map currentPrice (resp_data r) = [None]
        \<and> map pe_ttm_zh (resp_data r) = [Some 12]
        \<and> resp_total r = 1)
   \<and> map api_name (snd (GET sample_imports quote_down_host overlay_query))
       = [''stock_basic'', ''daily'', ''daily_basic'']
   \<and> (\<exists>r. fst (GET sample_imports roster_only_host overlay_query) = Inr r
        \<and> map stock_id (resp_data r) = [''600000.SH'']
        \<and> map currentPrice (resp_data r) = [None]
        \<and> map pe_ttm_zh (resp_data r) = [None])"
proof -
  let ?rows = "[[(''ts_code'', JStr ''600000.SH''), (''name'', JStr ''A'')]]"
  let ?ind = "[[(''ts_code'', JStr ''600000.SH''), (''trade_date'', JStr ''20240102''),
                (''pe'', JNum 12)]]"
  let ?dreq = "daily_request ''secret''
      [(''trade_date'', trade_date_of sample_imports overlay_query),
       (''fields'', FIELDS_DAILY sample_imports)]"
  let ?ireq = "daily_basic_request ''secret''
      [(''trade_date'', trade_date_of sample_imports overlay_query),
       (''fields'', FIELDS_DAILY_BASIC sample_imports)]"
  have m: "q_market overlay_query = None"
    by (simp add: overlay_query_def plain_query_def)
  have td: "trade_date_of sample_imports overlay_query = ''20240102''"
    by (simp add: trade_date_of_def overlay_query_def plain_query_def or_default_def)
  have md: "matches_date (trade_date_of sample_imports overlay_query)"
    unfolding td by (rule matches_date_sample)
  have rqm: "q_include_market_data overlay_query = Some ''true''"
    by (simp add: overlay_query_def)
  have rqi: "q_include_basic_indicators overlay_query = Some ''true''"
    by (simp add: overlay_query_def)
  have lim: "apply_limit (q_limit overlay_query) ?rows = ?rows"
    by (simp add: apply_limit_def truthy_def overlay_query_def plain_query_def)
  have mg: "\<And>a b. batchMergeStockData sample_imports ?rows a b = map (sample_stock a b) ?rows"
    by (simp add: sample_imports_def)
  have cm: "createDataMap sample_imports ?ind = [(''600000.SH'', ?ind ! 0)]"
    by (simp add: sample_imports_def row_code_def get_prop_def)

  have tk: "TUSHARE_TOKEN quote_down_host = Some ''secret''"
    by (simp add: quote_down_host_def)
  have s1: "step_1 sample_imports quote_down_host overlay_query =
     (Inr (''secret'', ?rows),
      [stock_basic_request ''secret''
         [(''list_status'', list_status_of overlay_query), (''fields'', ''ts_code,name'')]])"
    by (rule step_1_sample [OF m md tk quote_down_rows(1)])
  have pre: "fst (step_1 sample_imports quote_down_host overlay_query) = Inr (''secret'', ?rows)
      \<and> q_include_market_data overlay_query = Some ''true''
      \<and> isl (call (upstream quote_down_host) ?dreq)"
    by (simp add: s1 rqm quote_down_rows(3))
  from overlay_failure_isolated [of sample_imports quote_down_host overlay_query,
      THEN conjunct1, rule_format, OF pre]
  obtain r where g: "GET sample_imports quote_down_host overlay_query =
        (Inr r,
         snd (step_1 sample_imports quote_down_host overlay_query)
         @ [?dreq] @ (if q_include_basic_indicators overlay_query = Some ''true'' then [?ireq] else []))"
    and d: "resp_data r =
        batchMergeStockData sample_imports (apply_limit (q_limit overlay_query) ?rows) None
          (if q_include_basic_indicators overlay_query = Some ''true''
           then (case fetch_rows (upstream quote_down_host) ?ireq of
                   Inl e \<Rightarrow> None
                 | Inr rows \<Rightarrow> if rows = [] then None else Some (createDataMap sample_imports rows))
           else None)"
    and t: "resp_total r = length (resp_data r)"
    by (elim exE conjE) (rule that)
  have d': "resp_data r = map (sample_stock None (Some [(''600000.SH'', ?ind ! 0)])) ?rows"
    unfolding d lim mg rqi by (simp add: quote_down_rows(2) cm)
  have a1: "fst (GET sample_imports quote_down_host overlay_query) = Inr r" by (simp add: g)
  have a2: "map stock_id (resp_data r) = [''600000.SH'']"
    unfolding d' by (simp add: sample_stock_def row_code_def get_prop_def)
  have a3: "map currentPrice (resp_data r) = [None]"
    unfolding d' by (simp add: sample_stock_def)
  have a4: "map pe_ttm_zh (resp_data r) = [Some 12]"
    unfolding d' by (simp add: sample_stock_def row_code_def get_prop_def)
  have a5: "resp_total r = 1" unfolding t d' by simp
  have a6: "map api_name (snd (GET sample_imports quote_down_host overlay_query))
       = [''stock_basic'', ''daily'', ''daily_basic'']"
    unfolding g by (simp add: s1 rqi api_name_requests)

  have tk2: "TUSHARE_TOKEN roster_only_host = Some ''secret''"
    by (simp add: roster_only_host_def)
  have s2: "step_1 sample_imports roster_only_host overlay_query =
     (Inr (''secret'', ?rows),
      [stock_basic_request ''secret''
         [(''list_status'', list_status_of overlay_query), (''fields'', ''ts_code,name'')]])"
    by (rule step_1_sample [OF m md tk2 roster_only_rows])
  have fi: "call (upstream roster_only_host) ?ireq = Inl (NetworkError ''fetch failed'')"
    by (rule roster_only_fails) (simp add: api_name_requests)
  have fd: "fetch_rows (upstream roster_only_host) ?dreq = Inl (NetworkError ''fetch failed'')"
    by (simp add: fetch_rows_def roster_only_fails api_name_requests)
  have pre2: "fst (step_1 sample_imports roster_only_host overlay_query) = Inr (''secret'', ?rows)
      \<and> q_include_basic_indicators overlay_query = Some ''true''
      \<and> isl (call (upstream roster_only_host) ?ireq)"
    by (simp add: s2 rqi fi)
  from overlay_failure_isolated [of sample_imports roster_only_host overlay_query,
      THEN conjunct2, rule_format, OF pre2]
  obtain r2 where g2': "GET sample_imports roster_only_host overlay_query =
        (Inr r2,
         snd (step_1 sample_imports roster_only_host overlay_query)
         @ (if q_include_market_data overlay_query = Some ''true'' then [?dreq] else [])
         @ [?ireq])"
    and d2: "resp_data r2 =
        batchMergeStockData sample_imports (apply_limit (q_limit overlay_query) ?rows)
          (if q_include_market_data overlay_query = Some ''true''
           then (case fetch_rows (upstream roster_only_host) ?dreq of
                   Inl e \<Rightarrow> None
                 | Inr rows \<Rightarrow> if rows = [] then None else Some (createDataMap sample_imports rows))
           else None)
          None"
    by (elim exE conjE) (rule that)
  have g2: "fst (GET sample_imports roster_only_host overlay_query) = Inr r2" by (simp add: g2')
  have d2': "resp_data r2 = map (sample_stock None None) ?rows"
    unfolding d2 lim mg by (simp add: fd)
  have b2: "map stock_id (resp_data r2) = [''600000.SH'']"
    unfolding d2' by (simp add: sample_stock_def row_code_def get_prop_def)
  have b3: "map currentPrice (resp_data r2) = [None]"
    unfolding d2' by (simp add: sample_stock_def)
  have b4: "map pe_ttm_zh (resp_data r2) = [None]"
    unfolding d2' by (simp add: sample_stock_def)
  from a1 a2 a3 a4 a5 have A: "\<exists>r. fst (GET sample_imports quote_down_host overlay_query) = Inr r
        \<and> map stock_id (resp_data r) = [''600000.SH'']
        \<and> map currentPrice (resp_data r) = [None]
        \<and> map pe_ttm_zh (resp_data r) = [Some 12]
        \<and> resp_total r = 1"
    by (intro exI [of _ r] conjI)
  from g2 b2 b3 b4 have B: "\<exists>r. fst (GET sample_imports roster_only_host overlay_query) = Inr r
        \<and> map stock_id (resp_data r) = [''600000.SH'']
        \<and> map currentPrice (resp_data r) = [None]
        \<and> map pe_ttm_zh (resp_data r) = [None]"
    by (intro exI [of _ r2] conjI)
  from A a6 B show ?thesis by (intro conjI)
qed


end
